theory Spec2Isabelle
  imports Main "HOL-Library.Word"
begin

section \<open>JavaScript primitives used by the extraction scripts\<close>

text \<open>
  The source file holds two scripts that share most of their text: the MODE transfer
  extractor (lines 1 to 188) and the pool mint/burn extractor (lines 188 to 411).
  Strings are lists of characters (code units below 256; the data domain is ASCII hex).
  An absent, \<open>undefined\<close> or \<open>null\<close> field is \<open>None\<close>.

  Block numbers and timestamps are printed into the CSV line by a template literal. They
  are JavaScript safe integers, the Numbers from 0 to \<open>2 ^ 53 - 1\<close>, modelled as 53-bit
  words: in that range every integer is a Number of its own and a template literal prints
  it as its exact decimal digits (from \<open>2 ^ 53\<close> on the digits are rounded, from \<open>10 ^ 21\<close>
  on the exponent notation is used). The next-block hint and the counters are never
  printed into the file; they are only copied, tested for zero and added to, and are
  natural numbers.
\<close>

type_synonym safe_integer = "53 word"

datatype js_error = TypeError | SyntaxError | ServiceError

text \<open>\<open>s.slice(-40)\<close>: the last 40 code units, the whole string when it is shorter.\<close>

definition slice_neg40 :: "string \<Rightarrow> string" where
  "slice_neg40 s = drop (length s - 40) s"

text \<open>\<open>s.slice(a, b)\<close> for \<open>0 \<le> a \<le> b\<close>.\<close>

definition slice :: "string \<Rightarrow> nat \<Rightarrow> nat \<Rightarrow> string" where
  "slice s a b = take (b - a) (drop a s)"

text \<open>\<open>s.startsWith('0x')\<close>.\<close>

definition startsWith_0x :: "string \<Rightarrow> bool" where
  "startsWith_0x s = (take 2 s = ''0x'')"

text \<open>Value of one hexadecimal digit, either case.\<close>

definition hex_digit :: "char \<Rightarrow> nat option" where
  "hex_digit c =
     (let k = (of_char c :: nat) in
      if 48 \<le> k \<and> k \<le> 57 then Some (k - 48)
      else if 97 \<le> k \<and> k \<le> 102 then Some (k - 87)
      else if 65 \<le> k \<and> k \<le> 70 then Some (k - 55)
      else None)"

definition is_hex :: "char \<Rightarrow> bool" where
  "is_hex c = (hex_digit c \<noteq> None)"

definition hex_digit_val :: "char \<Rightarrow> nat" where
  "hex_digit_val c = (case hex_digit c of Some d \<Rightarrow> d | None \<Rightarrow> 0)"

text \<open>Big-endian value of a string of hexadecimal digits.\<close>

definition hex_val :: "string \<Rightarrow> nat" where
  "hex_val s = foldl (\<lambda>acc c. 16 * acc + hex_digit_val c) 0 s"

text \<open>
  The white space that \<open>StringToBigInt\<close> trims: TAB, LF, VT, FF, CR, SP and NBSP
  (the members of \<open>StrWhiteSpaceChar\<close> below 256).
\<close>

definition is_js_space :: "char \<Rightarrow> bool" where
  "is_js_space c = ((of_char c :: nat) \<in> {9, 10, 11, 12, 13, 32, 160})"

definition trim_end :: "string \<Rightarrow> string" where
  "trim_end s = rev (dropWhile is_js_space (rev s))"

text \<open>
  \<open>BigInt(`0x${s}`)\<close>. Every call of \<open>BigInt\<close> in the source builds its argument with
  the literal prefix \<open>0x\<close>, so the hexadecimal branch of \<open>StringToBigInt\<close> is the only one
  reached: surrounding white space is trimmed (there is none in front of the \<open>0\<close>), and
  what follows \<open>0x\<close> must be one or more hexadecimal digits; anything else throws a
  SyntaxError.
\<close>

definition BigInt_0x :: "string \<Rightarrow> js_error + nat" where
  "BigInt_0x s =
     (let ds = trim_end s in
      if ds \<noteq> [] \<and> list_all is_hex ds then Inr (hex_val ds) else Inl SyntaxError)"

text \<open>
  \<open>toString()\<close> of a non-negative BigInt, of any size: its decimal digits. A safe integer
  Number prints the same way.
\<close>

definition digit_char :: "nat \<Rightarrow> char" where
  "digit_char d = ''0123456789'' ! d"

fun toString :: "nat \<Rightarrow> string" where
  "toString n = (if n < 10 then [digit_char n] else toString (n div 10) @ [digit_char (n mod 10)])"

declare toString.simps [simp del]


section \<open>Records received from the streaming service\<close>

text \<open>
  A log as the client library hands it over. Both shapes the scripts probe for are
  present: the named slots \<open>topic1\<close>, \<open>topic2\<close> and the array \<open>topics\<close>, whose entries
  may themselves be \<open>null\<close>.
\<close>

record log =
  blockNumber :: "safe_integer option"
  transactionHash :: "string option"
  topic0 :: "string option"
  topic1 :: "string option"
  topic2 :: "string option"
  topics :: "string option list option"
  data :: "string option"

record block =
  number :: "safe_integer option"
  timestamp :: "safe_integer option"

text \<open>\<open>res.data\<close>, with its optional \<open>logs\<close> and \<open>blocks\<close> arrays.\<close>

record batch_data =
  logs :: "log list option"
  blocks :: "block list option"

text \<open>A non-null result of \<open>stream.recv()\<close>.\<close>

record response =
  res_data :: "batch_data option"
  nextBlock :: "nat option"

text \<open>What one call of \<open>await stream.recv()\<close> does: a batch, \<open>null\<close>, or a rejection.\<close>

datatype recv_result = Batch response | Null | Throws

section \<open>Per-log decoding (the body of the inner \<open>try\<close>)\<close>

text \<open>The value of \<open>x || ""\<close> for an optional number \<open>x\<close>: the number, or the empty string.\<close>

datatype num_or_empty = Num safe_integer | Empty

definition or_empty :: "safe_integer option \<Rightarrow> num_or_empty" where
  "or_empty x = (case x of None \<Rightarrow> Empty | Some n \<Rightarrow> if n = 0 then Empty else Num n)"

text \<open>\<open>x || ""\<close> for an optional string.\<close>

definition or_empty_str :: "string option \<Rightarrow> string" where
  "or_empty_str x = (case x of None \<Rightarrow> [] | Some s \<Rightarrow> s)"

text \<open>
  Interpolation \<open>${v}\<close> in a template literal: a safe integer prints as the decimal digits
  of its value, the empty string as nothing.
\<close>

definition interpolate :: "num_or_empty \<Rightarrow> string" where
  "interpolate v = (case v of Num n \<Rightarrow> toString (unat n) | Empty \<Rightarrow> [])"

text \<open>\<open>b.number === blockNumber\<close>: an absent number equals nothing, a number never equals \<open>""\<close>.\<close>

definition strict_eq :: "safe_integer option \<Rightarrow> num_or_empty \<Rightarrow> bool" where
  "strict_eq x v = (case (x, v) of (Some n, Num m) \<Rightarrow> n = m | _ \<Rightarrow> False)"

text \<open>\<open>res.data.blocks?.find(b => b.number === blockNumber)\<close> (lines 108 and 302).\<close>

definition find_block :: "block list option \<Rightarrow> num_or_empty \<Rightarrow> block option" where
  "find_block bs blockNumber' =
     (case bs of None \<Rightarrow> None | Some xs \<Rightarrow> find (\<lambda>b. strict_eq (number b) blockNumber') xs)"

text \<open>\<open>blockData?.timestamp || ""\<close> (lines 109 and 303).\<close>

definition timestamp_of :: "block option \<Rightarrow> num_or_empty" where
  "timestamp_of blockData = (case blockData of None \<Rightarrow> Empty | Some b \<Rightarrow> or_empty (timestamp b))"

text \<open>
  Option 1 of the address extraction (lines 118 to 123 and 311 to 316): a truthy named
  slot replaces the current value \<open>cur\<close> of the address variable.
\<close>

definition named_slot :: "string option \<Rightarrow> string \<Rightarrow> string" where
  "named_slot t cur =
     (case t of None \<Rightarrow> cur | Some s \<Rightarrow> if s \<noteq> [] then ''0x'' @ slice_neg40 s else cur)"

text \<open>
  Option 2 (lines 126 to 131 and 319 to 324): while the variable still holds
  \<open>"unknown"\<close> and \<open>topics\<close> is an array longer than \<open>i\<close>, entry \<open>i\<close> is sliced. Calling
  \<open>slice\<close> on a \<open>null\<close> entry throws a TypeError.
\<close>

definition array_slot :: "string \<Rightarrow> string option list option \<Rightarrow> nat \<Rightarrow> js_error + string" where
  "array_slot cur ts i =
     (if cur = ''unknown'' then
        (case ts of
           None \<Rightarrow> Inr cur
         | Some xs \<Rightarrow>
             if length xs > i then
               (case xs ! i of None \<Rightarrow> Inl TypeError | Some s \<Rightarrow> Inr (''0x'' @ slice_neg40 s))
             else Inr cur)
      else Inr cur)"

text \<open>
  The amount of the transfer script (lines 115 and 139 to 149). The inner \<open>try\<close> turns a
  SyntaxError of \<open>BigInt\<close> into the amount \<open>"0"\<close>.
\<close>

definition decode_amount :: "string option \<Rightarrow> string" where
  "decode_amount d =
     (case d of
        None \<Rightarrow> ''0''
      | Some s \<Rightarrow>
          if s = [] then ''0''
          else
            (let cleanData = (if startsWith_0x s then drop 2 s else s) in
             case BigInt_0x cleanData of Inl e \<Rightarrow> ''0'' | Inr v \<Rightarrow> toString v))"

text \<open>
  The two amounts of the pool script (lines 332 to 351). A SyntaxError of either
  \<open>BigInt\<close> call resets both amounts to \<open>"0"\<close>.
\<close>

definition decode_amounts :: "string option \<Rightarrow> string \<times> string" where
  "decode_amounts d =
     (case d of
        None \<Rightarrow> (''0'', ''0'')
      | Some s \<Rightarrow>
          if s = [] then (''0'', ''0'')
          else
            (let cleanData = (if startsWith_0x s then drop 2 s else s) in
             if length cleanData \<ge> 128 then
               (case BigInt_0x (slice cleanData 0 64) of
                  Inl e \<Rightarrow> (''0'', ''0'')
                | Inr a0 \<Rightarrow>
                    (case BigInt_0x (slice cleanData 64 128) of
                       Inl e \<Rightarrow> (''0'', ''0'')
                     | Inr a1 \<Rightarrow> (toString a0, toString a1)))
             else (''0'', ''0'')))"

text \<open>The local variables of the transfer script that make up one CSV row.\<close>

record transfer_row =
  t_blockNumber :: string
  t_timestamp :: string
  t_txHash :: string
  t_fromAddress :: string
  t_toAddress :: string
  t_amount :: string

text \<open>Lines 107 to 149 of the transfer script: the row of one log, or the exception thrown.\<close>

definition transfer_fields :: "block list option \<Rightarrow> log \<Rightarrow> js_error + transfer_row" where
  "transfer_fields bs l =
     (let blockNumber' = or_empty (blockNumber l);
          blockData = find_block bs blockNumber';
          timestamp' = timestamp_of blockData;
          txHash = or_empty_str (transactionHash l);
          fromAddress = named_slot (topic1 l) ''unknown'';
          toAddress = named_slot (topic2 l) ''unknown''
      in case array_slot fromAddress (topics l) 1 of
           Inl e \<Rightarrow> Inl e
         | Inr fromAddress \<Rightarrow>
             (case array_slot toAddress (topics l) 2 of
                Inl e \<Rightarrow> Inl e
              | Inr toAddress \<Rightarrow>
                  Inr \<lparr>t_blockNumber = interpolate blockNumber',
                       t_timestamp = interpolate timestamp',
                       t_txHash = txHash,
                       t_fromAddress = fromAddress,
                       t_toAddress = toAddress,
                       t_amount = decode_amount (data l)\<rparr>))"

text \<open>Line 152: the CSV line of a row.\<close>

definition transfer_csvRow :: "transfer_row \<Rightarrow> string" where
  "transfer_csvRow r =
     t_blockNumber r @ '','' @ t_timestamp r @ '','' @ t_txHash r @ '','' @
     t_fromAddress r @ '','' @ t_toAddress r @ '','' @ t_amount r @ [CHR 0x0A]"

definition transfer_log :: "block list option \<Rightarrow> log \<Rightarrow> js_error + string" where
  "transfer_log bs l = map_sum id transfer_csvRow (transfer_fields bs l)"

text \<open>The same for the pool script (lines 301 to 354), with its fixed event type.\<close>

record pool_row =
  p_blockNumber :: string
  p_timestamp :: string
  p_txHash :: string
  p_senderAddress :: string
  p_toAddress :: string
  p_amount0 :: string
  p_amount1 :: string
  p_eventType :: string

definition pool_fields :: "string \<Rightarrow> block list option \<Rightarrow> log \<Rightarrow> js_error + pool_row" where
  "pool_fields eventType bs l =
     (let blockNumber' = or_empty (blockNumber l);
          blockData = find_block bs blockNumber';
          timestamp' = timestamp_of blockData;
          txHash = or_empty_str (transactionHash l);
          senderAddress = named_slot (topic1 l) ''unknown'';
          toAddress = named_slot (topic2 l) ''unknown''
      in case array_slot senderAddress (topics l) 1 of
           Inl e \<Rightarrow> Inl e
         | Inr senderAddress \<Rightarrow>
             (case array_slot toAddress (topics l) 2 of
                Inl e \<Rightarrow> Inl e
              | Inr toAddress \<Rightarrow>
                  Inr \<lparr>p_blockNumber = interpolate blockNumber',
                       p_timestamp = interpolate timestamp',
                       p_txHash = txHash,
                       p_senderAddress = senderAddress,
                       p_toAddress = toAddress,
                       p_amount0 = fst (decode_amounts (data l)),
                       p_amount1 = snd (decode_amounts (data l)),
                       p_eventType = eventType\<rparr>))"

definition pool_csvRow :: "pool_row \<Rightarrow> string" where
  "pool_csvRow r =
     p_blockNumber r @ '','' @ p_timestamp r @ '','' @ p_txHash r @ '','' @
     p_senderAddress r @ '','' @ p_toAddress r @ '','' @ p_amount0 r @ '','' @
     p_amount1 r @ '','' @ p_eventType r @ [CHR 0x0A]"

definition pool_log :: "string \<Rightarrow> block list option \<Rightarrow> log \<Rightarrow> js_error + string" where
  "pool_log eventType bs l = map_sum id pool_csvRow (pool_fields eventType bs l)"

section \<open>The batch loop and the output file\<close>

text \<open>
  The file system calls that the scripts make on their one output file, in order:
  \<open>fs.writeFileSync\<close> replaces the content, \<open>fs.appendFileSync\<close> adds to its end. Both calls
  are taken to succeed, and so is \<open>client.stream\<close>: the only failure of the service that
  is modelled is a rejection of \<open>stream.recv\<close>. Console output is left out.
\<close>

datatype fs_op = WriteFile string | AppendFile string

fun file_content :: "fs_op list \<Rightarrow> string \<Rightarrow> string" where
  "file_content [] c = c"
| "file_content (WriteFile s # ops) c = file_content ops s"
| "file_content (AppendFile s # ops) c = file_content ops (c @ s)"

text \<open>
  The mutable state of one pass: \<open>query.fromBlock\<close>, the counter \<open>totalEvents\<close>, and the
  file system calls made so far.
\<close>

record run_state =
  fromBlock :: nat
  totalEvents :: nat
  fs :: "fs_op list"

text \<open>
  The two scripts run the same loop text around different per-log bodies, so the loop
  takes the per-log body as the parameter \<open>row\<close>: the CSV line of a log, or the exception
  its processing throws.

  \<open>for (const log of res.data.logs) { try { ... appendFileSync ... } catch { warn } }\<close>
  (lines 104 to 159 and 298 to 361): a log whose body throws appends nothing.
\<close>

fun for_logs :: "(log \<Rightarrow> js_error + string) \<Rightarrow> log list \<Rightarrow> fs_op list \<Rightarrow> fs_op list" where
  "for_logs row [] ops = ops"
| "for_logs row (l # ls) ops =
     (case row l of
        Inr csvRow \<Rightarrow> for_logs row ls (ops @ [AppendFile csvRow])
      | Inl e \<Rightarrow> for_logs row ls ops)"

text \<open>
  One iteration of the \<open>while\<close> loop for a non-null response (lines 99 to 165 and 293 to
  367): count the logs, process them, then move the cursor when the hint is truthy.
\<close>

definition loop_body ::
  "(block list option \<Rightarrow> log \<Rightarrow> js_error + string) \<Rightarrow> run_state \<Rightarrow> response \<Rightarrow> run_state" where
  "loop_body row st res =
     (let st1 =
        (case res_data res of
           None \<Rightarrow> st
         | Some d \<Rightarrow>
             (case logs d of
                None \<Rightarrow> st
              | Some ls \<Rightarrow>
                  st\<lparr>totalEvents := totalEvents st + length ls,
                     fs := for_logs (row (blocks d)) ls (fs st)\<rparr>))
      in case nextBlock res of
           None \<Rightarrow> st1
         | Some n \<Rightarrow> if n \<noteq> 0 then st1\<lparr>fromBlock := n\<rparr> else st1)"

text \<open>How a pass ends: the loop breaks at \<open>null\<close>, or \<open>recv\<close> rejects and the error leaves it.\<close>

datatype completion = Normal | Thrown js_error

text \<open>
  \<open>while (true) { const res = await stream.recv(); ... }\<close> against the list of what the
  successive \<open>recv\<close> calls do. When the list ends before \<open>null\<close> or a rejection the loop
  is still waiting: the result is \<open>None\<close>.
\<close>

fun stream_loop ::
  "(block list option \<Rightarrow> log \<Rightarrow> js_error + string) \<Rightarrow> run_state \<Rightarrow> recv_result list \<Rightarrow>
   (completion \<times> run_state) option" where
  "stream_loop row st [] = None"
| "stream_loop row st (Null # rest) = Some (Normal, st)"
| "stream_loop row st (Throws # rest) = Some (Thrown ServiceError, st)"
| "stream_loop row st (Batch res # rest) = stream_loop row (loop_body row st res) rest"

text \<open>What a finished process leaves: its exit status, its file system calls, its event count.\<close>

record process_result =
  exit_status :: nat
  fs_calls :: "fs_op list"
  events :: nat

subsection \<open>The transfer script\<close>

definition CSV_HEADERS :: string where
  "CSV_HEADERS = ''block_number,timestamp,tx_hash,from_address,to_address,amount\<newline>''"

text \<open>
  \<open>main().catch(error => { console.error(...); process.exit(1) })\<close> (lines 61 to 188):
  a run that returns exits with status 0, a rejected one with status 1.
\<close>

definition main :: "recv_result list \<Rightarrow> process_result option" where
  "main script =
     (case stream_loop transfer_log
             \<lparr>fromBlock = 11203124, totalEvents = 0, fs = [WriteFile CSV_HEADERS]\<rparr> script of
        None \<Rightarrow> None
      | Some (Normal, st) \<Rightarrow>
          Some \<lparr>exit_status = 0, fs_calls = fs st, events = totalEvents st\<rparr>
      | Some (Thrown e, st) \<Rightarrow>
          Some \<lparr>exit_status = 1, fs_calls = fs st, events = totalEvents st\<rparr>)"

subsection \<open>The pool script\<close>

definition CSV_HEADERS_pool :: string where
  "CSV_HEADERS_pool =
     ''block_number,timestamp,tx_hash,sender_address,to_address,amount0,amount1,event_type\<newline>''"

text \<open>
  \<open>processEvents(eventType, topic0)\<close> (lines 256 to 386): a pass with its own query and
  counter, writing to the file that \<open>main\<close> has initialised.
\<close>

definition processEvents ::
  "string \<Rightarrow> fs_op list \<Rightarrow> recv_result list \<Rightarrow> (completion \<times> run_state) option" where
  "processEvents eventType ops script =
     stream_loop (pool_log eventType) \<lparr>fromBlock = 11203124, totalEvents = 0, fs = ops\<rparr> script"

text \<open>Lines 388 to 411: the header, the mint pass, then the burn pass.\<close>

definition main_pool :: "recv_result list \<Rightarrow> recv_result list \<Rightarrow> process_result option" where
  "main_pool mint_script burn_script =
     (case processEvents ''mint'' [WriteFile CSV_HEADERS_pool] mint_script of
        None \<Rightarrow> None
      | Some (Thrown e, st) \<Rightarrow>
          Some \<lparr>exit_status = 1, fs_calls = fs st, events = totalEvents st\<rparr>
      | Some (Normal, st) \<Rightarrow>
          (case processEvents ''burn'' (fs st) burn_script of
             None \<Rightarrow> None
           | Some (Thrown e, st') \<Rightarrow>
               Some \<lparr>exit_status = 1, fs_calls = fs st', events = totalEvents st + totalEvents st'\<rparr>
           | Some (Normal, st') \<Rightarrow>
               Some \<lparr>exit_status = 0, fs_calls = fs st', events = totalEvents st + totalEvents st'\<rparr>))"

section \<open>Notions used to state the properties\<close>

text \<open>The CSV lines that a list of logs contributes, and the number of logs that throw.\<close>

primrec emitted :: "(log \<Rightarrow> js_error + string) \<Rightarrow> log list \<Rightarrow> string list" where
  "emitted row [] = []"
| "emitted row (l # ls) =
     (case row l of Inr csvRow \<Rightarrow> csvRow # emitted row ls | Inl e \<Rightarrow> emitted row ls)"

definition errored :: "(log \<Rightarrow> js_error + string) \<Rightarrow> log list \<Rightarrow> nat" where
  "errored row ls = length (filter (\<lambda>l. isl (row l)) ls)"

text \<open>The number of \<open>appendFileSync\<close> calls in a trace, that is, of data rows in the file.\<close>

fun is_append :: "fs_op \<Rightarrow> bool" where
  "is_append (AppendFile s) = True"
| "is_append (WriteFile s) = False"

definition appended :: "fs_op list \<Rightarrow> nat" where
  "appended ops = length (filter is_append ops)"

text \<open>The logs of a response (none when \<open>res.data\<close> or \<open>res.data.logs\<close> is missing).\<close>

definition response_logs :: "response \<Rightarrow> log list" where
  "response_logs res =
     (case res_data res of None \<Rightarrow> [] | Some d \<Rightarrow> (case logs d of None \<Rightarrow> [] | Some ls \<Rightarrow> ls))"

definition response_blocks :: "response \<Rightarrow> block list option" where
  "response_blocks res = (case res_data res of None \<Rightarrow> None | Some d \<Rightarrow> blocks d)"

definition response_rows ::
  "(block list option \<Rightarrow> log \<Rightarrow> js_error + string) \<Rightarrow> response \<Rightarrow> string list" where
  "response_rows row res = emitted (row (response_blocks res)) (response_logs res)"

definition response_errors ::
  "(block list option \<Rightarrow> log \<Rightarrow> js_error + string) \<Rightarrow> response \<Rightarrow> nat" where
  "response_errors row res = errored (row (response_blocks res)) (response_logs res)"

text \<open>The blocks of a batch (none when \<open>res.data.blocks\<close> is missing).\<close>

definition batch_blocks :: "block list option \<Rightarrow> block list" where
  "batch_blocks bs = (case bs of None \<Rightarrow> [] | Some xs \<Rightarrow> xs)"

text \<open>A log whose \<open>topic0\<close> is one of the accepted topic hashes of the query.\<close>

definition accepted_topic0 :: "string list \<Rightarrow> log \<Rightarrow> bool" where
  "accepted_topic0 topic0_list l =
     (case topic0 l of None \<Rightarrow> False | Some h \<Rightarrow> h \<in> set topic0_list)"

text \<open>The responses that a pass processes: those before the first \<open>null\<close> or rejection.\<close>

fun consumed :: "recv_result list \<Rightarrow> response list" where
  "consumed [] = []"
| "consumed (Batch res # rest) = res # consumed rest"
| "consumed (Null # rest) = []"
| "consumed (Throws # rest) = []"

text \<open>Whether the first answer that is not a batch is \<open>null\<close>.\<close>

fun reaches_tip :: "recv_result list \<Rightarrow> bool" where
  "reaches_tip [] = False"
| "reaches_tip (Batch res # rest) = reaches_tip rest"
| "reaches_tip (Null # rest) = True"
| "reaches_tip (Throws # rest) = False"

text \<open>The value of \<open>query.fromBlock\<close> recorded after each of a sequence of batches.\<close>

fun cursors ::
  "(block list option \<Rightarrow> log \<Rightarrow> js_error + string) \<Rightarrow> run_state \<Rightarrow> response list \<Rightarrow> nat list" where
  "cursors row st [] = []"
| "cursors row st (res # rest) =
     fromBlock (loop_body row st res) # cursors row (loop_body row st res) rest"

text \<open>The next-block hints of a sequence of batches; a missing hint reads as 0.\<close>

definition hints :: "response list \<Rightarrow> nat list" where
  "hints bs = map (\<lambda>res. case nextBlock res of None \<Rightarrow> 0 | Some n \<Rightarrow> n) bs"






text \<open>The payload after the optional \<open>0x\<close> prefix is removed (\<open>cleanData\<close>).\<close>

definition strip_0x :: "string \<Rightarrow> string" where
  "strip_0x s = (if startsWith_0x s then drop 2 s else s)"

text \<open>Value of a string of decimal digits, to read back what \<open>toString\<close> prints.\<close>

definition dec_val :: "string \<Rightarrow> nat" where
  "dec_val s = foldl (\<lambda>acc c. 10 * acc + (of_char c - 48)) 0 s"

text \<open>The CSV lines, the thrown logs and the logs of all the batches that a pass processes.\<close>

definition script_rows ::
  "(block list option \<Rightarrow> log \<Rightarrow> js_error + string) \<Rightarrow> recv_result list \<Rightarrow> string list" where
  "script_rows row script = concat (map (response_rows row) (consumed script))"

definition script_errors ::
  "(block list option \<Rightarrow> log \<Rightarrow> js_error + string) \<Rightarrow> recv_result list \<Rightarrow> nat" where
  "script_errors row script = sum_list (map (response_errors row) (consumed script))"

definition script_logs :: "recv_result list \<Rightarrow> nat" where
  "script_logs script = sum_list (map (\<lambda>res. length (response_logs res)) (consumed script))"

section \<open>Example inputs\<close>

text \<open>
  A transfer log in the two shapes the scripts accept, a log whose \<open>topics\<close> array holds a
  \<open>null\<close> at position 1, a log with no topics at all, and blocks to join them with.
\<close>

definition transfer_topic0 :: string where
  "transfer_topic0 = ''0xddf252ad1be2c89b69c2b068fc378daa952ba7f163c4a11628f55a4df523b3ef''"

definition topic_from :: string where
  "topic_from = ''0x000000000000000000000000dfc7c877a950e49d2610114102175a06c2e3167a''"

definition topic_to :: string where
  "topic_to = ''0x0000000000000000000000001111111111111111111111111111111111111111''"

definition log_named :: log where
  "log_named =
     \<lparr>blockNumber = Some 11203200, transactionHash = Some ''0xabc'',
      topic0 = Some transfer_topic0, topic1 = Some topic_from, topic2 = Some topic_to,
      topics = None, data = Some ''0x64''\<rparr>"

definition log_array :: log where
  "log_array =
     \<lparr>blockNumber = Some 11203200, transactionHash = Some ''0xabc'',
      topic0 = Some transfer_topic0, topic1 = None, topic2 = None,
      topics = Some [Some transfer_topic0, Some topic_from, Some topic_to], data = Some ''0x64''\<rparr>"

definition log_null_entry :: log where
  "log_null_entry =
     \<lparr>blockNumber = Some 11203200, transactionHash = Some ''0xdef'',
      topic0 = Some transfer_topic0, topic1 = None, topic2 = None,
      topics = Some [Some transfer_topic0, None], data = Some ''0x64''\<rparr>"

definition log_no_topics :: log where
  "log_no_topics =
     \<lparr>blockNumber = Some 11203200, transactionHash = Some ''0x123'',
      topic0 = None, topic1 = None, topic2 = None, topics = None, data = None\<rparr>"

definition block_stamped :: block where
  "block_stamped = \<lparr>number = Some 11203200, timestamp = Some 1700000000\<rparr>"

definition block_unstamped :: block where
  "block_unstamped = \<lparr>number = Some 11203200, timestamp = None\<rparr>"

definition initial_state :: run_state where
  "initial_state = \<lparr>fromBlock = 11203124, totalEvents = 0, fs = [WriteFile CSV_HEADERS]\<rparr>"

definition approval_topic0 :: string where
  "approval_topic0 = ''0x8c5be1e5ebec7d5bd14f71427d1e84f3dd0314c0f7b2291e5b200ac8c7c3b925''"

definition log_other_event :: log where
  "log_other_event =
     \<lparr>blockNumber = Some 11203200, transactionHash = Some ''0x456'',
      topic0 = Some approval_topic0, topic1 = Some topic_from, topic2 = Some topic_to,
      topics = None, data = Some ''0x64''\<rparr>"

definition response_of :: "log list \<Rightarrow> block list \<Rightarrow> nat \<Rightarrow> response" where
  "response_of ls bs n = \<lparr>res_data = Some \<lparr>logs = Some ls, blocks = Some bs\<rparr>, nextBlock = Some n\<rparr>"

definition batch_mixed :: response where
  "batch_mixed = response_of [log_named, log_null_entry] [block_stamped] 11203300"

definition batch_empty :: response where
  "batch_empty = response_of [] [] 11203400"

text \<open>A service that answers with two batches and then \<open>null\<close>, and one that rejects the second call.\<close>

definition script_to_tip :: "recv_result list" where
  "script_to_tip = [Batch batch_mixed, Batch batch_empty, Null]"

definition script_rejects :: "recv_result list" where
  "script_rejects = [Batch batch_mixed, Throws, Batch batch_empty, Null]"

text \<open>The rows expected for the example logs.\<close>

definition row_example :: transfer_row where
  "row_example =
     \<lparr>t_blockNumber = ''11203200'', t_timestamp = [], t_txHash = ''0xabc'',
      t_fromAddress = ''0xdfc7c877a950e49d2610114102175a06c2e3167a'',
      t_toAddress = ''0x1111111111111111111111111111111111111111'', t_amount = ''100''\<rparr>"


definition row_stamped :: transfer_row where
  "row_stamped = row_example\<lparr>t_timestamp := ''1700000000''\<rparr>"

section \<open>Auxiliary facts\<close>

subsection \<open>Hexadecimal and decimal strings\<close>






text \<open>Every number that a template literal prints in the model is a safe integer.\<close>

lemma safe_integer_bound: "unat (n :: safe_integer) < 2 ^ 53"
  using unsigned_less [of n, where ?'a = nat] by simp

lemma toString_nonempty: "toString n \<noteq> []"
  by (subst toString.simps) simp

lemma digit_char_val: "d < 10 \<Longrightarrow> (of_char (digit_char d) :: nat) = 48 + d"
proof -
  assume "d < 10"
  then have "d \<in> {0,1,2,3,4,5,6,7,8,9}" by auto
  then show ?thesis by (auto simp: digit_char_def)
qed

lemma dec_val_snoc: "dec_val (s @ [c]) = 10 * dec_val s + (of_char c - 48)"
  by (simp add: dec_val_def)

text \<open>\<open>toString\<close> prints the decimal digits of its argument.\<close>

lemma dec_val_toString: "dec_val (toString n) = n"
proof (induction n rule: toString.induct)
  case (1 n)
  show ?case
  proof (cases "n < 10")
    case True
    then show ?thesis by (subst toString.simps) (simp add: dec_val_def digit_char_val)
  next
    case False
    then have "dec_val (toString (n div 10)) = n div 10" using 1 by simp
    with False show ?thesis
      by (subst toString.simps) (simp add: dec_val_snoc digit_char_val)
  qed
qed

lemma hex_not_space: "is_hex c \<Longrightarrow> \<not> is_js_space c"
  by (auto simp: is_hex_def hex_digit_def is_js_space_def Let_def split: if_splits)

lemma trim_end_hex: "list_all is_hex ds \<Longrightarrow> trim_end ds = ds"
proof (cases ds rule: rev_cases)
  case Nil
  then show ?thesis by (simp add: trim_end_def)
next
  case (snoc xs x)
  assume "list_all is_hex ds"
  with snoc have "is_hex x" by simp
  then have "\<not> is_js_space x" by (rule hex_not_space)
  with snoc show ?thesis by (simp add: trim_end_def)
qed

lemma BigInt_0x_hex: "ds \<noteq> [] \<Longrightarrow> list_all is_hex ds \<Longrightarrow> BigInt_0x ds = Inr (hex_val ds)"
  by (simp add: BigInt_0x_def trim_end_hex)

lemma list_all_take: "list_all P xs \<Longrightarrow> list_all P (take n xs)"
  by (auto simp: list_all_iff dest: in_set_takeD)

lemma list_all_drop: "list_all P xs \<Longrightarrow> list_all P (drop n xs)"
  by (auto simp: list_all_iff dest: in_set_dropD)

text \<open>The equations that evaluate the string primitives on literals.\<close>

lemmas eval_hex = BigInt_0x_def trim_end_def is_js_space_def is_hex_def hex_digit_def hex_val_def
  hex_digit_val_def toString.simps digit_char_def startsWith_0x_def strip_0x_def

subsection \<open>Amounts\<close>

lemma decode_amount_hex:
  "strip_0x s \<noteq> [] \<Longrightarrow> list_all is_hex (strip_0x s) \<Longrightarrow>
   decode_amount (Some s) = toString (hex_val (strip_0x s))"
proof -
  assume ne: "strip_0x s \<noteq> []" and hex: "list_all is_hex (strip_0x s)"
  from ne have "s \<noteq> []" by (auto simp: strip_0x_def split: if_splits)
  with ne hex show ?thesis
    by (simp add: decode_amount_def strip_0x_def [symmetric] Let_def BigInt_0x_hex)
qed

lemma decode_amount_fail:
  "BigInt_0x (strip_0x s) = Inl e \<Longrightarrow> decode_amount (Some s) = ''0''"
  by (simp add: decode_amount_def strip_0x_def)

lemma decode_amount_example:
  "decode_amount (Some ''0x00000000000000000000000000000000000000000000000000000000000064'') = ''100''"
  by (simp add: decode_amount_def eval_hex)

lemma t_amount_decode: "transfer_fields bs l = Inr r \<Longrightarrow> t_amount r = decode_amount (data l)"
  by (auto simp: transfer_fields_def Let_def split: sum.splits)

lemma decode_amounts_words:
  assumes len: "128 \<le> length (strip_0x s)" and hex: "list_all is_hex (take 128 (strip_0x s))"
  shows "decode_amounts (Some s) =
           (toString (hex_val (take 64 (strip_0x s))),
            toString (hex_val (take 64 (drop 64 (strip_0x s)))))"
proof -
  let ?c = "strip_0x s"
  have w0: "take 64 ?c = take 64 (take 128 ?c)" by simp
  have w1: "take 64 (drop 64 ?c) = drop 64 (take 128 ?c)" by (simp add: drop_take)
  have h0: "list_all is_hex (take 64 ?c)" using hex by (subst w0) (rule list_all_take)
  have h1: "list_all is_hex (take 64 (drop 64 ?c))" using hex by (subst w1) (rule list_all_drop)
  have n0: "take 64 ?c \<noteq> []" using len by auto
  have n1: "take 64 (drop 64 ?c) \<noteq> []" using len by auto
  have b0: "BigInt_0x (slice ?c 0 64) = Inr (hex_val (take 64 ?c))"
    using BigInt_0x_hex [OF n0 h0] by (simp add: slice_def)
  have b1: "BigInt_0x (slice ?c 64 128) = Inr (hex_val (take 64 (drop 64 ?c)))"
    using BigInt_0x_hex [OF n1 h1] by (simp add: slice_def)
  have ne: "s \<noteq> []" using len by (auto simp: strip_0x_def split: if_splits)
  show ?thesis
    using len ne b0 b1 by (simp add: decode_amounts_def strip_0x_def [symmetric] Let_def)
qed

lemma decode_amounts_short:
  "length (strip_0x s) < 128 \<Longrightarrow> decode_amounts (Some s) = (''0'', ''0'')"
  by (simp add: decode_amounts_def strip_0x_def)

lemma decode_amounts_example:
  "decode_amounts (Some ''0x0000000000000000000000000000000000000000000000000000000000000032000000000000000000000000000000000000000000000000000000000000004b'') = (''50'', ''75'')"
  by (simp add: decode_amounts_def slice_def eval_hex)

lemma p_amounts_decode:
  "pool_fields eventType bs l = Inr r \<Longrightarrow> (p_amount0 r, p_amount1 r) = decode_amounts (data l)"
  by (auto simp: pool_fields_def Let_def split: sum.splits)

section \<open>Amount decoding\<close>

text \<open>
  C3. In the transfer script the amount of a row is decoded from the log's data alone.
  When the payload, after an optional \<open>0x\<close> prefix is removed, is a non-empty string of
  hexadecimal digits, the amount is the decimal string of the big-endian value of the
  whole payload. The payload \<open>0x00000000000000000000000000000000000000000000000000000000000064\<close>
  gives \<open>"100"\<close>. When \<open>BigInt\<close> rejects the payload the amount is \<open>"0"\<close>.
\<close>

theorem single_amount_decode:
  "(strip_0x s \<noteq> [] \<and> list_all is_hex (strip_0x s) \<longrightarrow>
      decode_amount (Some s) = toString (hex_val (strip_0x s)) \<and>
      dec_val (decode_amount (Some s)) = hex_val (strip_0x s)) \<and>
   decode_amount (Some ''0x00000000000000000000000000000000000000000000000000000000000064'') = ''100'' \<and>
   (BigInt_0x (strip_0x s) = Inl e \<longrightarrow> decode_amount (Some s) = ''0'') \<and>
   (transfer_fields bs l = Inr r \<longrightarrow> t_amount r = decode_amount (data l))"
  using decode_amount_hex [of s] decode_amount_fail [of s e] decode_amount_example
    t_amount_decode [of bs l r]
  by (simp add: dec_val_toString)

text \<open>The equations that evaluate the per-log bodies on concrete logs.\<close>

lemmas eval_row = transfer_fields_def pool_fields_def or_empty_def or_empty_str_def
  find_block_def strict_eq_def timestamp_of_def interpolate_def named_slot_def array_slot_def
  slice_neg40_def decode_amount_def decode_amounts_def slice_def Let_def

theorem single_amount_decode_witness:
  "(strip_0x ''0x1f'' \<noteq> [] \<and> list_all is_hex (strip_0x ''0x1f'') \<and>
      decode_amount (Some ''0x1f'') = ''31'') \<and>
   (BigInt_0x (strip_0x ''0xzz'') = Inl SyntaxError \<and> decode_amount (Some ''0xzz'') = ''0'') \<and>
   (transfer_fields None log_no_topics =
      Inr \<lparr>t_blockNumber = ''11203200'', t_timestamp = [], t_txHash = ''0x123'',
           t_fromAddress = ''unknown'', t_toAddress = ''unknown'', t_amount = ''0''\<rparr> \<and>
    t_amount \<lparr>t_blockNumber = ''11203200'', t_timestamp = [], t_txHash = ''0x123'',
           t_fromAddress = ''unknown'', t_toAddress = ''unknown'', t_amount = ''0''\<rparr> = decode_amount (data log_no_topics))"
proof -
  let ?r = "\<lparr>t_blockNumber = ''11203200'', t_timestamp = [], t_txHash = ''0x123'',
           t_fromAddress = ''unknown'', t_toAddress = ''unknown'', t_amount = ''0''\<rparr>"
  have h1: "strip_0x ''0x1f'' \<noteq> [] \<and> list_all is_hex (strip_0x ''0x1f'')"
    by (simp add: eval_hex)
  have v1: "toString (hex_val (strip_0x ''0x1f'')) = ''31''"
    by (simp add: eval_hex)
  have h2: "BigInt_0x (strip_0x ''0xzz'') = Inl SyntaxError"
    by (simp add: eval_hex)
  have h3: "transfer_fields None log_no_topics = Inr ?r"
    by (simp add: log_no_topics_def eval_row eval_hex)
  have "decode_amount (Some ''0x1f'') = toString (hex_val (strip_0x ''0x1f''))"
    using single_amount_decode [of "''0x1f''"] h1 by blast
  then have c1: "decode_amount (Some ''0x1f'') = ''31''"
    by (simp only: v1)
  have c2: "decode_amount (Some ''0xzz'') = ''0''"
    using single_amount_decode [of "''0xzz''" SyntaxError] h2 by blast
  have c3: "t_amount ?r = decode_amount (data log_no_topics)"
    using single_amount_decode [of _ _ None log_no_topics ?r] h3 by blast
  show ?thesis using h1 h2 h3 c1 c2 c3 by blast
qed

text \<open>
  C4. In the pool script, when the payload without its optional \<open>0x\<close> prefix has at least
  128 characters and the first 128 are hexadecimal digits, \<open>amount0\<close> is the decimal string
  of the big-endian value of characters 0 to 63 and \<open>amount1\<close> that of characters 64 to
  127; words encoding 50 and 75 give \<open>"50"\<close> and \<open>"75"\<close>. When the payload has fewer than
  128 characters both amounts are \<open>"0"\<close>.
\<close>

theorem dual_amount_decode:
  "(128 \<le> length (strip_0x s) \<and> list_all is_hex (take 128 (strip_0x s)) \<longrightarrow>
      decode_amounts (Some s) =
        (toString (hex_val (take 64 (strip_0x s))),
         toString (hex_val (take 64 (drop 64 (strip_0x s)))))) \<and>
   decode_amounts (Some ''0x0000000000000000000000000000000000000000000000000000000000000032000000000000000000000000000000000000000000000000000000000000004b'') = (''50'', ''75'') \<and>
   (length (strip_0x s) < 128 \<longrightarrow> decode_amounts (Some s) = (''0'', ''0'')) \<and>
   (pool_fields eventType bs l = Inr r \<longrightarrow> (p_amount0 r, p_amount1 r) = decode_amounts (data l))"
  using decode_amounts_words [of s] decode_amounts_short [of s] decode_amounts_example
    p_amounts_decode [of eventType bs l r]
  by simp

theorem dual_amount_decode_witness:
  "(128 \<le> length (strip_0x ''0x0000000000000000000000000000000000000000000000000000000000000032000000000000000000000000000000000000000000000000000000000000004b'') \<and> list_all is_hex (take 128 (strip_0x ''0x0000000000000000000000000000000000000000000000000000000000000032000000000000000000000000000000000000000000000000000000000000004b'')) \<and>
    decode_amounts (Some ''0x0000000000000000000000000000000000000000000000000000000000000032000000000000000000000000000000000000000000000000000000000000004b'') = (''50'', ''75'')) \<and>
   (length (strip_0x ''0x32'') < 128 \<and> decode_amounts (Some ''0x32'') = (''0'', ''0'')) \<and>
   (pool_fields ''mint'' None log_no_topics =
      Inr \<lparr>p_blockNumber = ''11203200'', p_timestamp = [], p_txHash = ''0x123'',
           p_senderAddress = ''unknown'', p_toAddress = ''unknown'', p_amount0 = ''0'',
           p_amount1 = ''0'', p_eventType = ''mint''\<rparr> \<and>
    (p_amount0 \<lparr>p_blockNumber = ''11203200'', p_timestamp = [], p_txHash = ''0x123'',
           p_senderAddress = ''unknown'', p_toAddress = ''unknown'', p_amount0 = ''0'',
           p_amount1 = ''0'', p_eventType = ''mint''\<rparr>, p_amount1 \<lparr>p_blockNumber = ''11203200'', p_timestamp = [], p_txHash = ''0x123'',
           p_senderAddress = ''unknown'', p_toAddress = ''unknown'', p_amount0 = ''0'',
           p_amount1 = ''0'', p_eventType = ''mint''\<rparr>) = decode_amounts (data log_no_topics))"
proof -
  let ?s = "''0x0000000000000000000000000000000000000000000000000000000000000032000000000000000000000000000000000000000000000000000000000000004b''"
  let ?r = "\<lparr>p_blockNumber = ''11203200'', p_timestamp = [], p_txHash = ''0x123'',
           p_senderAddress = ''unknown'', p_toAddress = ''unknown'', p_amount0 = ''0'',
           p_amount1 = ''0'', p_eventType = ''mint''\<rparr>"
  have h1: "128 \<le> length (strip_0x ?s) \<and> list_all is_hex (take 128 (strip_0x ?s))"
    by (simp add: eval_hex)
  have v1: "(toString (hex_val (take 64 (strip_0x ?s))),
             toString (hex_val (take 64 (drop 64 (strip_0x ?s))))) = (''50'', ''75'')"
    by (simp add: eval_hex)
  have h2: "length (strip_0x ''0x32'') < 128"
    by (simp add: eval_hex)
  have h3: "pool_fields ''mint'' None log_no_topics = Inr ?r"
    by (simp add: log_no_topics_def eval_row eval_hex)
  have "decode_amounts (Some ?s) =
          (toString (hex_val (take 64 (strip_0x ?s))),
           toString (hex_val (take 64 (drop 64 (strip_0x ?s)))))"
    using dual_amount_decode [of ?s] h1 by blast
  then have c1: "decode_amounts (Some ?s) = (''50'', ''75'')"
    by (simp only: v1)
  have c2: "decode_amounts (Some ''0x32'') = (''0'', ''0'')"
    using dual_amount_decode [of "''0x32''"] h2 by blast
  have c3: "(p_amount0 ?r, p_amount1 ?r) = decode_amounts (data log_no_topics)"
    using dual_amount_decode [of _ "''mint''" None log_no_topics ?r] h3 by blast
  show ?thesis using h1 h2 h3 c1 c2 c3 by blast
qed

section \<open>Facts about the batch loop\<close>

lemma for_logs_emitted: "for_logs row ls ops = ops @ map AppendFile (emitted row ls)"
  by (induction ls arbitrary: ops) (auto split: sum.splits)

lemma emitted_errored: "length (emitted row ls) + errored row ls = length ls"
  by (induction ls) (auto simp: errored_def split: sum.splits)

lemma emitted_append: "emitted row (xs @ ys) = emitted row xs @ emitted row ys"
  by (induction xs) (auto split: sum.splits)

lemma emitted_skip: "row l = Inl e \<Longrightarrow> emitted row (pre @ l # post) = emitted row (pre @ post)"
  by (simp add: emitted_append)

lemma appended_append: "appended (xs @ ys) = appended xs + appended ys"
  by (simp add: appended_def)

lemma appended_map_AppendFile: "appended (map AppendFile rs) = length rs"
  by (induction rs) (auto simp: appended_def)

lemma file_content_appends: "file_content (map AppendFile rs) c = c @ concat rs"
  by (induction rs arbitrary: c) auto

lemma loop_body_fs: "fs (loop_body row st res) = fs st @ map AppendFile (response_rows row res)"
  by (auto simp: loop_body_def response_rows_def response_logs_def response_blocks_def
      for_logs_emitted Let_def split: option.splits)

lemma loop_body_totalEvents:
  "totalEvents (loop_body row st res) = totalEvents st + length (response_logs res)"
  by (auto simp: loop_body_def response_logs_def Let_def split: option.splits)

lemma loop_body_fromBlock:
  "fromBlock (loop_body row st res) =
     (case nextBlock res of None \<Rightarrow> fromBlock st | Some n \<Rightarrow> if n \<noteq> 0 then n else fromBlock st)"
  by (auto simp: loop_body_def Let_def split: option.splits)

lemma foldl_loop_body_fs:
  "fs (foldl (loop_body row) st bs) = fs st @ map AppendFile (concat (map (response_rows row) bs))"
  by (induction bs arbitrary: st) (simp_all add: loop_body_fs)

lemma response_rows_errors:
  "length (response_rows row res) + response_errors row res = length (response_logs res)"
  by (simp add: response_rows_def response_errors_def emitted_errored)

lemma stream_loop_Some:
  "stream_loop row st script = Some (c, st') \<Longrightarrow>
     fs st' = fs st @ map AppendFile (script_rows row script) \<and>
     totalEvents st' = totalEvents st + script_logs script \<and>
     c = (if reaches_tip script then Normal else Thrown ServiceError)"
proof (induction row st script rule: stream_loop.induct)
  case (4 row st res rest)
  then show ?case
    by (simp add: script_rows_def script_logs_def loop_body_fs loop_body_totalEvents)
qed (simp_all add: script_rows_def script_logs_def)

lemma stream_loop_throws:
  "stream_loop row st (map Batch bs @ Throws # rest) = Some (Thrown ServiceError, foldl (loop_body row) st bs)"
  by (induction bs arbitrary: st) simp_all

lemma stream_loop_null:
  "stream_loop row st (map Batch bs @ Null # rest) = Some (Normal, foldl (loop_body row) st bs)"
  by (induction bs arbitrary: st) simp_all

lemma consumed_batches: "consumed (map Batch bs @ Throws # rest) = bs" "consumed (map Batch bs @ Null # rest) = bs"
  by (induction bs) simp_all

lemma script_rows_errors:
  "length (script_rows row script) + script_errors row script = script_logs script"
proof -
  have "length (concat (map (response_rows row) bs)) + sum_list (map (response_errors row) bs)
        = sum_list (map (\<lambda>res. length (response_logs res)) bs)" for bs
  proof (induction bs)
    case Nil
    then show ?case by simp
  next
    case (Cons b bs)
    then show ?case using response_rows_errors [of row b] by simp
  qed
  then show ?thesis by (simp add: script_rows_def script_errors_def script_logs_def)
qed

subsection \<open>The example logs, evaluated\<close>

lemmas eval_log = transfer_log_def pool_log_def transfer_csvRow_def pool_csvRow_def eval_row eval_hex
  log_named_def log_array_def log_null_entry_def log_no_topics_def log_other_event_def
  topic_from_def topic_to_def transfer_topic0_def approval_topic0_def


lemma transfer_log_null_entry: "transfer_log bs log_null_entry = Inl TypeError"
  by (simp add: eval_log)

lemma transfer_log_other_event: "transfer_log None log_other_event =
   Inr ''11203200,,0x456,0xdfc7c877a950e49d2610114102175a06c2e3167a,0x1111111111111111111111111111111111111111,100\<newline>''"
  by (simp add: eval_log)

lemma transfer_log_named: "transfer_log None log_named =
   Inr ''11203200,,0xabc,0xdfc7c877a950e49d2610114102175a06c2e3167a,0x1111111111111111111111111111111111111111,100\<newline>''"
  by (simp add: eval_log)

lemma transfer_log_array: "transfer_log None log_array =
   Inr ''11203200,,0xabc,0xdfc7c877a950e49d2610114102175a06c2e3167a,0x1111111111111111111111111111111111111111,100\<newline>''"
  by (simp add: eval_log)

lemma transfer_log_other_event': "transfer_log (Some []) log_other_event =
   Inr ''11203200,,0x456,0xdfc7c877a950e49d2610114102175a06c2e3167a,0x1111111111111111111111111111111111111111,100\<newline>''"
  by (simp add: eval_log)

lemma transfer_log_named': "transfer_log (Some []) log_named =
   Inr ''11203200,,0xabc,0xdfc7c877a950e49d2610114102175a06c2e3167a,0x1111111111111111111111111111111111111111,100\<newline>''"
  by (simp add: eval_log)

section \<open>Rows appended per batch\<close>

text \<open>
  C1, in the form that holds of the code. Processing a batch appends exactly the CSV lines of its logs whose
  processing does not throw, in order: the number of rows appended is the number of logs
  in the batch minus the number of logs that threw. The loop never reads \<open>topic0\<close>
  (selection by topic hash is left to the query sent to the service), so this is the
  number of logs with an accepted \<open>topic0\<close> minus the thrown ones whenever every log of the
  batch has an accepted \<open>topic0\<close>. The statement holds for the per-log body \<open>row\<close> of either
  script.
\<close>

theorem rows_per_batch:
  "fs (loop_body row st res) = fs st @ map AppendFile (response_rows row res) \<and>
   appended (fs (loop_body row st res)) =
     appended (fs st) + (length (response_logs res) - response_errors row res) \<and>
   ((\<forall>l \<in> set (response_logs res). accepted_topic0 topic0_list l) \<longrightarrow>
      appended (fs (loop_body row st res)) =
        appended (fs st) +
          (length (filter (accepted_topic0 topic0_list) (response_logs res)) - response_errors row res))"
proof -
  have rows: "length (response_rows row res) = length (response_logs res) - response_errors row res"
    using response_rows_errors [of row res] by simp
  have count: "appended (fs (loop_body row st res)) =
     appended (fs st) + (length (response_logs res) - response_errors row res)"
    by (simp add: loop_body_fs appended_append appended_map_AppendFile rows)
  have "filter (accepted_topic0 topic0_list) (response_logs res) = response_logs res"
    if "\<forall>l \<in> set (response_logs res). accepted_topic0 topic0_list l"
    using that by simp
  with count show ?thesis by (simp add: loop_body_fs)
qed

text \<open>A batch of two accepted logs, the second with a \<open>null\<close> topic entry: one row.\<close>

theorem rows_per_batch_witness:
  "list_all (accepted_topic0 [transfer_topic0])
     (response_logs (response_of [log_named, log_null_entry] [] 11203300)) \<and>
   response_errors transfer_log (response_of [log_named, log_null_entry] [] 11203300) = 1 \<and>
   appended (fs (loop_body transfer_log initial_state
      (response_of [log_named, log_null_entry] [] 11203300))) = 1"
proof -
  let ?res = "response_of [log_named, log_null_entry] [] 11203300"
  have h0: "list_all (accepted_topic0 [transfer_topic0]) (response_logs ?res)"
    by (simp add: response_logs_def response_of_def accepted_topic0_def log_named_def
        log_null_entry_def)
  then have h: "\<forall>l \<in> set (response_logs ?res). accepted_topic0 [transfer_topic0] l"
    by (simp add: list_all_iff)
  have e: "response_errors transfer_log ?res = 1"
    by (simp add: response_errors_def errored_def response_logs_def response_blocks_def
        response_of_def transfer_log_named' transfer_log_null_entry)
  have n: "length (filter (accepted_topic0 [transfer_topic0]) (response_logs ?res)) = 2"
    using h by (simp add: response_logs_def response_of_def)
  have a: "appended (fs initial_state) = 0"
    by (simp add: initial_state_def appended_def)
  from rows_per_batch [of transfer_log initial_state ?res "[transfer_topic0]"] h
  have "appended (fs (loop_body transfer_log initial_state ?res)) =
        appended (fs initial_state) +
          (length (filter (accepted_topic0 [transfer_topic0]) (response_logs ?res)) -
           response_errors transfer_log ?res)"
    by blast
  then have "appended (fs (loop_body transfer_log initial_state ?res)) = 1"
    by (simp add: e n a)
  with h0 e show ?thesis by blast
qed

text \<open>
  C1 as the specification states it fails: a batch holding one log of another event, which does not throw,
  gets a row although no log of the batch has an accepted \<open>topic0\<close>.
\<close>

theorem rows_per_batch_counterexample:
  "appended (fs (loop_body transfer_log initial_state (response_of [log_other_event] [] 11203300)))
     - appended (fs initial_state)
   \<noteq> length (filter (accepted_topic0 [transfer_topic0])
        (response_logs (response_of [log_other_event] [] 11203300)))
     - response_errors transfer_log (response_of [log_other_event] [] 11203300)"
proof -
  let ?res = "response_of [log_other_event] [] 11203300"
  have rows: "length (response_rows transfer_log ?res) = 1"
    by (simp add: response_rows_def response_logs_def response_blocks_def response_of_def
        transfer_log_other_event')
  have acc: "filter (accepted_topic0 [transfer_topic0]) (response_logs ?res) = []"
    by (simp add: response_logs_def response_of_def accepted_topic0_def log_other_event_def
        transfer_topic0_def approval_topic0_def)
  have "appended (fs (loop_body transfer_log initial_state ?res)) - appended (fs initial_state) = 1"
    by (simp add: loop_body_fs appended_append appended_map_AppendFile rows)
  with acc show ?thesis by simp
qed

section \<open>A log whose processing throws\<close>

text \<open>
  C7. When the processing of a log of a batch throws, the exception is caught: nothing is
  appended for that log, the loop goes on with the next log, and the file system calls
  and the cursor after the batch are those of the same batch without that log (only the
  event counter differs). The statement holds for the per-log body \<open>row\<close> of either script.
\<close>

theorem skipped_log_leaves_no_trace:
  "row (blocks d) l = Inl e \<and> logs d = Some (pre @ l # post) \<longrightarrow>
     for_logs (row (blocks d)) (l # post) ops = for_logs (row (blocks d)) post ops \<and>
     fs (loop_body row st \<lparr>res_data = Some d, nextBlock = nb\<rparr>) =
       fs (loop_body row st \<lparr>res_data = Some (d\<lparr>logs := Some (pre @ post)\<rparr>), nextBlock = nb\<rparr>) \<and>
     fromBlock (loop_body row st \<lparr>res_data = Some d, nextBlock = nb\<rparr>) =
       fromBlock (loop_body row st \<lparr>res_data = Some (d\<lparr>logs := Some (pre @ post)\<rparr>), nextBlock = nb\<rparr>) \<and>
     fs (loop_body row st \<lparr>res_data = Some d, nextBlock = nb\<rparr>) =
       fs st @ map AppendFile (emitted (row (blocks d)) pre @ emitted (row (blocks d)) post)"
proof (intro impI)
  assume a: "row (blocks d) l = Inl e \<and> logs d = Some (pre @ l # post)"
  then have skip: "emitted (row (blocks d)) (pre @ l # post) = emitted (row (blocks d)) (pre @ post)"
    by (simp add: emitted_skip)
  have one: "for_logs (row (blocks d)) (l # post) ops = for_logs (row (blocks d)) post ops"
    using a by simp
  have two: "fs (loop_body row st \<lparr>res_data = Some d, nextBlock = nb\<rparr>) =
       fs st @ map AppendFile (emitted (row (blocks d)) (pre @ post))"
    using a skip
    by (simp add: loop_body_fs response_rows_def response_logs_def response_blocks_def)
  have three: "fs (loop_body row st \<lparr>res_data = Some (d\<lparr>logs := Some (pre @ post)\<rparr>), nextBlock = nb\<rparr>) =
       fs st @ map AppendFile (emitted (row (blocks d)) (pre @ post))"
    by (simp add: loop_body_fs response_rows_def response_logs_def response_blocks_def)
  have four: "fromBlock (loop_body row st \<lparr>res_data = Some d, nextBlock = nb\<rparr>) =
       fromBlock (loop_body row st \<lparr>res_data = Some (d\<lparr>logs := Some (pre @ post)\<rparr>), nextBlock = nb\<rparr>)"
    by (simp add: loop_body_fromBlock)
  show "for_logs (row (blocks d)) (l # post) ops = for_logs (row (blocks d)) post ops \<and>
     fs (loop_body row st \<lparr>res_data = Some d, nextBlock = nb\<rparr>) =
       fs (loop_body row st \<lparr>res_data = Some (d\<lparr>logs := Some (pre @ post)\<rparr>), nextBlock = nb\<rparr>) \<and>
     fromBlock (loop_body row st \<lparr>res_data = Some d, nextBlock = nb\<rparr>) =
       fromBlock (loop_body row st \<lparr>res_data = Some (d\<lparr>logs := Some (pre @ post)\<rparr>), nextBlock = nb\<rparr>) \<and>
     fs (loop_body row st \<lparr>res_data = Some d, nextBlock = nb\<rparr>) =
       fs st @ map AppendFile (emitted (row (blocks d)) pre @ emitted (row (blocks d)) post)"
    using one two three four by (simp add: emitted_append)
qed

text \<open>A log with a \<open>null\<close> topic entry between two good logs.\<close>

theorem skipped_log_leaves_no_trace_witness:
  "transfer_log (blocks \<lparr>logs = Some ([log_named] @ log_null_entry # [log_array]), blocks = Some []\<rparr>)
      log_null_entry = Inl TypeError \<and>
   fs (loop_body transfer_log initial_state
        \<lparr>res_data = Some \<lparr>logs = Some ([log_named] @ log_null_entry # [log_array]), blocks = Some []\<rparr>,
         nextBlock = Some 11203300\<rparr>) =
   fs (loop_body transfer_log initial_state
        \<lparr>res_data = Some \<lparr>logs = Some ([log_named] @ [log_array]), blocks = Some []\<rparr>,
         nextBlock = Some 11203300\<rparr>)"
proof -
  let ?d = "\<lparr>logs = Some ([log_named] @ log_null_entry # [log_array]), blocks = Some []\<rparr>"
  have h: "transfer_log (blocks ?d) log_null_entry = Inl TypeError \<and>
           logs ?d = Some ([log_named] @ log_null_entry # [log_array])"
    by (simp add: transfer_log_null_entry)
  from skipped_log_leaves_no_trace [of transfer_log ?d log_null_entry TypeError "[log_named]"
      "[log_array]" _ initial_state "Some 11203300"] h
  have "fs (loop_body transfer_log initial_state \<lparr>res_data = Some ?d, nextBlock = Some 11203300\<rparr>) =
        fs (loop_body transfer_log initial_state
          \<lparr>res_data = Some (?d\<lparr>logs := Some ([log_named] @ [log_array])\<rparr>), nextBlock = Some 11203300\<rparr>)"
    by blast
  with h show ?thesis by simp
qed

section \<open>Facts about whole runs\<close>

lemma main_Some:
  "main script = Some r \<Longrightarrow>
     fs_calls r = WriteFile CSV_HEADERS # map AppendFile (script_rows transfer_log script) \<and>
     events r = script_logs script \<and>
     exit_status r = (if reaches_tip script then 0 else 1)"
proof -
  assume m: "main script = Some r"
  let ?st = "\<lparr>fromBlock = 11203124, totalEvents = 0, fs = [WriteFile CSV_HEADERS]\<rparr>"
  from m obtain c st' where s: "stream_loop transfer_log ?st script = Some (c, st')"
    by (auto simp: main_def split: option.splits)
  from stream_loop_Some [OF s]
  have f: "fs st' = WriteFile CSV_HEADERS # map AppendFile (script_rows transfer_log script)"
    and t: "totalEvents st' = script_logs script"
    and c: "c = (if reaches_tip script then Normal else Thrown ServiceError)"
    by simp_all
  from m s c f t show ?thesis
    by (auto simp: main_def split: if_splits)
qed

lemma main_throws:
  "main (map Batch bs @ Throws # rest) =
     Some \<lparr>exit_status = 1,
           fs_calls = WriteFile CSV_HEADERS # map AppendFile (concat (map (response_rows transfer_log) bs)),
           events = sum_list (map (\<lambda>res. length (response_logs res)) bs)\<rparr>"
proof -
  let ?st = "\<lparr>fromBlock = 11203124, totalEvents = 0, fs = [WriteFile CSV_HEADERS]\<rparr>"
  let ?script = "map Batch bs @ Throws # rest"
  have s: "stream_loop transfer_log ?st ?script = Some (Thrown ServiceError, foldl (loop_body transfer_log) ?st bs)"
    by (rule stream_loop_throws)
  from stream_loop_Some [OF s]
  have "fs (foldl (loop_body transfer_log) ?st bs) =
          WriteFile CSV_HEADERS # map AppendFile (concat (map (response_rows transfer_log) bs))"
    and "totalEvents (foldl (loop_body transfer_log) ?st bs) = sum_list (map (\<lambda>res. length (response_logs res)) bs)"
    by (simp_all add: script_rows_def script_logs_def consumed_batches)
  with s show ?thesis by (simp add: main_def)
qed

lemma main_null:
  "main (map Batch bs @ Null # rest) =
     Some \<lparr>exit_status = 0,
           fs_calls = WriteFile CSV_HEADERS # map AppendFile (concat (map (response_rows transfer_log) bs)),
           events = sum_list (map (\<lambda>res. length (response_logs res)) bs)\<rparr>"
proof -
  let ?st = "\<lparr>fromBlock = 11203124, totalEvents = 0, fs = [WriteFile CSV_HEADERS]\<rparr>"
  let ?script = "map Batch bs @ Null # rest"
  have s: "stream_loop transfer_log ?st ?script = Some (Normal, foldl (loop_body transfer_log) ?st bs)"
    by (rule stream_loop_null)
  from stream_loop_Some [OF s]
  have "fs (foldl (loop_body transfer_log) ?st bs) =
          WriteFile CSV_HEADERS # map AppendFile (concat (map (response_rows transfer_log) bs))"
    and "totalEvents (foldl (loop_body transfer_log) ?st bs) = sum_list (map (\<lambda>res. length (response_logs res)) bs)"
    by (simp_all add: script_rows_def script_logs_def consumed_batches)
  with s show ?thesis by (simp add: main_def)
qed

lemma main_pool_Some:
  "main_pool mint burn = Some r \<Longrightarrow>
     fs_calls r = WriteFile CSV_HEADERS_pool #
        map AppendFile (script_rows (pool_log ''mint'') mint @
          (if reaches_tip mint then script_rows (pool_log ''burn'') burn else [])) \<and>
     events r = script_logs mint + (if reaches_tip mint then script_logs burn else 0) \<and>
     exit_status r = (if reaches_tip mint \<and> reaches_tip burn then 0 else 1)"
proof -
  assume m: "main_pool mint burn = Some r"
  from m obtain c st where s1: "processEvents ''mint'' [WriteFile CSV_HEADERS_pool] mint = Some (c, st)"
    by (auto simp: main_pool_def split: option.splits)
  from stream_loop_Some [OF s1 [unfolded processEvents_def]]
  have f1: "fs st = WriteFile CSV_HEADERS_pool # map AppendFile (script_rows (pool_log ''mint'') mint)"
    and t1: "totalEvents st = script_logs mint"
    and c1: "c = (if reaches_tip mint then Normal else Thrown ServiceError)"
    by simp_all
  show ?thesis
  proof (cases "reaches_tip mint")
    case False
    with m s1 c1 f1 t1 show ?thesis by (auto simp: main_pool_def)
  next
    case True
    with c1 have cn: "c = Normal" by simp
    from m s1 cn obtain c' st' where s2: "processEvents ''burn'' (fs st) burn = Some (c', st')"
      by (auto simp: main_pool_def split: option.splits)
    from stream_loop_Some [OF s2 [unfolded processEvents_def]]
    have f2: "fs st' = fs st @ map AppendFile (script_rows (pool_log ''burn'') burn)"
      and t2: "totalEvents st' = script_logs burn"
      and c2: "c' = (if reaches_tip burn then Normal else Thrown ServiceError)"
      by simp_all
    from m s1 cn s2 c2 f1 f2 t1 t2 True show ?thesis
      by (auto simp: main_pool_def split: if_splits)
  qed
qed

lemma cursors_hints: "0 \<notin> set (hints bs) \<Longrightarrow> cursors row st bs = hints bs"
  by (induction bs arbitrary: st) (auto simp: hints_def loop_body_fromBlock split: option.splits)

lemma transfer_log_named_stamped: "transfer_log (Some [block_stamped]) log_named =
   Inr ''11203200,1700000000,0xabc,0xdfc7c877a950e49d2610114102175a06c2e3167a,0x1111111111111111111111111111111111111111,100\<newline>''"
  by (simp add: eval_log block_stamped_def)

lemma pool_log_named_stamped: "pool_log eventType (Some [block_stamped]) log_named =
   Inr (''11203200,1700000000,0xabc,0xdfc7c877a950e49d2610114102175a06c2e3167a,0x1111111111111111111111111111111111111111,0,0,'' @ eventType @ ''\<newline>'')"
  by (simp add: eval_log block_stamped_def)

lemma pool_log_null_entry: "pool_log eventType bs log_null_entry = Inl TypeError"
  by (simp add: eval_log)

lemma rows_batch_mixed: "response_rows transfer_log batch_mixed =
   [''11203200,1700000000,0xabc,0xdfc7c877a950e49d2610114102175a06c2e3167a,0x1111111111111111111111111111111111111111,100\<newline>'']"
  by (simp add: response_rows_def response_logs_def response_blocks_def response_of_def
      batch_mixed_def transfer_log_named_stamped transfer_log_null_entry)

lemma rows_batch_mixed_pool: "response_rows (pool_log eventType) batch_mixed =
   [''11203200,1700000000,0xabc,0xdfc7c877a950e49d2610114102175a06c2e3167a,0x1111111111111111111111111111111111111111,0,0,'' @ eventType @ ''\<newline>'']"
  by (simp add: response_rows_def response_logs_def response_blocks_def response_of_def
      batch_mixed_def pool_log_named_stamped pool_log_null_entry)

lemma rows_batch_empty: "response_rows row batch_empty = []"
  by (simp add: response_rows_def response_logs_def response_of_def batch_empty_def)

lemma logs_batch_mixed: "length (response_logs batch_mixed) = 2"
  by (simp add: response_logs_def response_of_def batch_mixed_def)

lemma logs_batch_empty: "length (response_logs batch_empty) = 0"
  by (simp add: response_logs_def response_of_def batch_empty_def)

lemma errors_batch_mixed: "response_errors transfer_log batch_mixed = 1"
  by (simp add: response_errors_def errored_def response_logs_def response_blocks_def
      response_of_def batch_mixed_def transfer_log_named_stamped transfer_log_null_entry)

lemma errors_batch_mixed_pool: "response_errors (pool_log eventType) batch_mixed = 1"
  by (simp add: response_errors_def errored_def response_logs_def response_blocks_def
      response_of_def batch_mixed_def pool_log_named_stamped pool_log_null_entry)

lemma errors_batch_empty: "response_errors row batch_empty = 0"
  by (simp add: response_errors_def errored_def response_logs_def response_of_def batch_empty_def)

lemma main_script_to_tip:
  "main script_to_tip =
     Some \<lparr>exit_status = 0,
           fs_calls = [WriteFile CSV_HEADERS, AppendFile
             ''11203200,1700000000,0xabc,0xdfc7c877a950e49d2610114102175a06c2e3167a,0x1111111111111111111111111111111111111111,100\<newline>''],
           events = 2\<rparr>"
proof -
  have e: "script_to_tip = map Batch [batch_mixed, batch_empty] @ Null # []"
    by (simp add: script_to_tip_def)
  show ?thesis
    unfolding e main_null
    by (simp add: rows_batch_mixed rows_batch_empty logs_batch_mixed logs_batch_empty)
qed

lemma main_script_rejects:
  "main script_rejects =
     Some \<lparr>exit_status = 1,
           fs_calls = [WriteFile CSV_HEADERS, AppendFile
             ''11203200,1700000000,0xabc,0xdfc7c877a950e49d2610114102175a06c2e3167a,0x1111111111111111111111111111111111111111,100\<newline>''],
           events = 2\<rparr>"
proof -
  have e: "script_rejects = map Batch [batch_mixed] @ Throws # [Batch batch_empty, Null]"
    by (simp add: script_rejects_def)
  show ?thesis
    unfolding e main_throws
    by (simp add: rows_batch_mixed logs_batch_mixed)
qed

lemma main_pool_null_null:
  "main_pool (map Batch ms @ Null # rest) (map Batch bs @ Null # rest') =
     Some \<lparr>exit_status = 0,
           fs_calls = WriteFile CSV_HEADERS_pool #
             map AppendFile (concat (map (response_rows (pool_log ''mint'')) ms) @
                             concat (map (response_rows (pool_log ''burn'')) bs)),
           events = sum_list (map (\<lambda>res. length (response_logs res)) ms) +
                    sum_list (map (\<lambda>res. length (response_logs res)) bs)\<rparr>"
proof -
  let ?m = "map Batch ms @ Null # rest" and ?b = "map Batch bs @ Null # rest'"
  let ?s0 = "\<lparr>fromBlock = 11203124, totalEvents = 0, fs = [WriteFile CSV_HEADERS_pool]\<rparr>"
  let ?st = "foldl (loop_body (pool_log ''mint'')) ?s0 ms"
  let ?s1 = "\<lparr>fromBlock = 11203124, totalEvents = 0, fs = fs ?st\<rparr>"
  let ?st' = "foldl (loop_body (pool_log ''burn'')) ?s1 bs"
  have s1: "stream_loop (pool_log ''mint'') ?s0 ?m = Some (Normal, ?st)"
    by (rule stream_loop_null)
  have s2: "stream_loop (pool_log ''burn'') ?s1 ?b = Some (Normal, ?st')"
    by (rule stream_loop_null)
  from stream_loop_Some [OF s1]
  have f1: "fs ?st = WriteFile CSV_HEADERS_pool # map AppendFile (concat (map (response_rows (pool_log ''mint'')) ms))"
    and t1: "totalEvents ?st = sum_list (map (\<lambda>res. length (response_logs res)) ms)"
    by (simp_all add: script_rows_def script_logs_def consumed_batches)
  from stream_loop_Some [OF s2]
  have f2: "fs ?st' = fs ?st @ map AppendFile (concat (map (response_rows (pool_log ''burn'')) bs))"
    and t2: "totalEvents ?st' = sum_list (map (\<lambda>res. length (response_logs res)) bs)"
    by (simp_all add: script_rows_def script_logs_def consumed_batches)
  show ?thesis
    unfolding main_pool_def processEvents_def s1 using s2 f1 f2 t1 t2 by simp
qed

lemma main_pool_script_to_tip:
  "main_pool script_to_tip script_to_tip =
     Some \<lparr>exit_status = 0,
           fs_calls = [WriteFile CSV_HEADERS_pool,
             AppendFile ''11203200,1700000000,0xabc,0xdfc7c877a950e49d2610114102175a06c2e3167a,0x1111111111111111111111111111111111111111,0,0,mint\<newline>'',
             AppendFile ''11203200,1700000000,0xabc,0xdfc7c877a950e49d2610114102175a06c2e3167a,0x1111111111111111111111111111111111111111,0,0,burn\<newline>''],
           events = 4\<rparr>"
proof -
  have e: "script_to_tip = map Batch [batch_mixed, batch_empty] @ Null # []"
    by (simp add: script_to_tip_def)
  show ?thesis
    unfolding e main_pool_null_null
    by (simp add: rows_batch_mixed_pool rows_batch_empty logs_batch_mixed logs_batch_empty)
qed

lemma errors_script_to_tip: "script_errors transfer_log script_to_tip = 1"
  by (simp add: script_errors_def script_to_tip_def errors_batch_mixed errors_batch_empty)

lemma errors_script_to_tip_pool: "script_errors (pool_log eventType) script_to_tip = 1"
  by (simp add: script_errors_def script_to_tip_def errors_batch_mixed_pool errors_batch_empty)

section \<open>The cursor\<close>

text \<open>
  C5, in the form that holds of the code. After a batch whose next-block hint is present and not zero,
  \<open>query.fromBlock\<close> equals that hint; after a batch without a hint it is unchanged. So over
  consecutive batches that all carry such hints the recorded cursor values are exactly
  the hints, and they are non-decreasing whenever the hints reported by the service,
  starting from the initial start block, are non-decreasing. The loop itself does not
  compare a hint with the current cursor.
\<close>

theorem cursor_follows_hints:
  "(nextBlock res = Some n \<and> n \<noteq> 0 \<longrightarrow> fromBlock (loop_body row st res) = n) \<and>
   (nextBlock res = None \<longrightarrow> fromBlock (loop_body row st res) = fromBlock st) \<and>
   (0 \<notin> set (hints bs) \<longrightarrow> cursors row st bs = hints bs) \<and>
   (0 \<notin> set (hints bs) \<and> sorted (fromBlock st # hints bs) \<longrightarrow>
      sorted (fromBlock st # cursors row st bs))"
  using cursors_hints [of bs row st] by (simp add: loop_body_fromBlock)

text \<open>Two batches with rising hints.\<close>

theorem cursor_follows_hints_witness:
  "0 \<notin> set (hints [response_of [] [] 11203300, response_of [] [] 11203400]) \<and>
   sorted (fromBlock initial_state # hints [response_of [] [] 11203300, response_of [] [] 11203400]) \<and>
   cursors transfer_log initial_state [response_of [] [] 11203300, response_of [] [] 11203400]
     = [11203300, 11203400] \<and>
   sorted (fromBlock initial_state #
     cursors transfer_log initial_state [response_of [] [] 11203300, response_of [] [] 11203400])"
proof -
  let ?bs = "[response_of [] [] 11203300, response_of [] [] 11203400]"
  have v: "hints ?bs = [11203300, 11203400]"
    by (simp add: hints_def response_of_def)
  have h: "0 \<notin> set (hints ?bs) \<and> sorted (fromBlock initial_state # hints ?bs)"
    by (simp add: v initial_state_def)
  from cursor_follows_hints [of _ _ transfer_log initial_state ?bs] h
  have c: "cursors transfer_log initial_state ?bs = hints ?bs \<and>
           sorted (fromBlock initial_state # cursors transfer_log initial_state ?bs)"
    by blast
  from h c show ?thesis by (simp only: v) simp
qed

text \<open>
  C5 as the specification states it fails: a batch whose hint lies below the start block moves the cursor
  down.
\<close>

theorem cursor_follows_hints_counterexample:
  "\<not> sorted (fromBlock initial_state # cursors transfer_log initial_state [response_of [] [] 5])"
  by (simp add: loop_body_fromBlock response_of_def initial_state_def)

section \<open>A rejected fetch\<close>

text \<open>
  C6. When \<open>recv\<close> rejects after some batches, the transfer script ends at once with exit
  status 1, whatever the service would have answered afterwards: no further call is
  made. The file system calls are the header and the rows of the batches processed
  before, so the file holds what a run ending there at the tip would hold; a rejection
  at the second call leaves the header and exactly the rows of the first batch.
\<close>

theorem fetch_error_is_fatal:
  "main (map Batch bs @ Throws # rest) =
     Some \<lparr>exit_status = 1,
           fs_calls = WriteFile CSV_HEADERS # map AppendFile (concat (map (response_rows transfer_log) bs)),
           events = sum_list (map (\<lambda>res. length (response_logs res)) bs)\<rparr> \<and>
   map_option (\<lambda>r. file_content (fs_calls r) []) (main (map Batch bs @ Throws # rest)) =
     map_option (\<lambda>r. file_content (fs_calls r) []) (main (map Batch bs @ [Null])) \<and>
   map_option (\<lambda>r. file_content (fs_calls r) []) (main (Batch b # Throws # rest)) =
     Some (CSV_HEADERS @ concat (response_rows transfer_log b))"
proof -
  have one: "main (map Batch bs @ Throws # rest) =
     Some \<lparr>exit_status = 1,
           fs_calls = WriteFile CSV_HEADERS # map AppendFile (concat (map (response_rows transfer_log) bs)),
           events = sum_list (map (\<lambda>res. length (response_logs res)) bs)\<rparr>"
    by (rule main_throws)
  have two: "map_option (\<lambda>r. file_content (fs_calls r) []) (main (map Batch bs @ Throws # rest)) =
     map_option (\<lambda>r. file_content (fs_calls r) []) (main (map Batch bs @ [Null]))"
    by (simp add: main_throws main_null)
  have "main (Batch b # Throws # rest) = main (map Batch [b] @ Throws # rest)" by simp
  then have three: "map_option (\<lambda>r. file_content (fs_calls r) []) (main (Batch b # Throws # rest)) =
     Some (CSV_HEADERS @ concat (response_rows transfer_log b))"
    by (simp only: main_throws) (simp add: file_content_appends)
  from one two three show ?thesis by blast
qed

text \<open>A service that rejects the second call and would have gone on afterwards.\<close>

theorem fetch_error_is_fatal_witness:
  "main script_rejects =
     Some \<lparr>exit_status = 1,
           fs_calls = [WriteFile CSV_HEADERS, AppendFile
             ''11203200,1700000000,0xabc,0xdfc7c877a950e49d2610114102175a06c2e3167a,0x1111111111111111111111111111111111111111,100\<newline>''],
           events = 2\<rparr>"
proof -
  have e: "script_rejects = map Batch [batch_mixed] @ Throws # [Batch batch_empty, Null]"
    by (simp add: script_rejects_def)
  from fetch_error_is_fatal [of "[batch_mixed]" "[Batch batch_empty, Null]"]
  have "main (map Batch [batch_mixed] @ Throws # [Batch batch_empty, Null]) =
     Some \<lparr>exit_status = 1,
           fs_calls = WriteFile CSV_HEADERS #
             map AppendFile (concat (map (response_rows transfer_log) [batch_mixed])),
           events = sum_list (map (\<lambda>res. length (response_logs res)) [batch_mixed])\<rparr>"
    by blast
  then show ?thesis
    unfolding e by (simp add: rows_batch_mixed logs_batch_mixed)
qed

section \<open>The header line\<close>

text \<open>
  C9. After any number of batches, and so in every finished run, the first file system
  call writes the header and every later call appends a data row: the header is written
  once, before any row. This holds for the transfer script and for the pool script, where the one header is followed by
  the rows of the mint pass and then, when the mint pass reached the tip, by the rows of
  the burn pass.
\<close>

theorem header_written_once:
  "fs (foldl (loop_body transfer_log) initial_state bs) =
      WriteFile CSV_HEADERS # map AppendFile (concat (map (response_rows transfer_log) bs)) \<and>
   (main script = Some r \<longrightarrow>
      fs_calls r = WriteFile CSV_HEADERS # map AppendFile (script_rows transfer_log script) \<and>
      appended (fs_calls r) + 1 = length (fs_calls r) \<and>
      file_content (fs_calls r) c = CSV_HEADERS @ concat (script_rows transfer_log script)) \<and>
   (main_pool mint burn = Some r' \<longrightarrow>
      fs_calls r' = WriteFile CSV_HEADERS_pool #
        map AppendFile (script_rows (pool_log ''mint'') mint @
          (if reaches_tip mint then script_rows (pool_log ''burn'') burn else [])) \<and>
      appended (fs_calls r') + 1 = length (fs_calls r') \<and>
      file_content (fs_calls r') c = CSV_HEADERS_pool @
        concat (script_rows (pool_log ''mint'') mint @
          (if reaches_tip mint then script_rows (pool_log ''burn'') burn else [])))"
proof -
  have shape: "appended (WriteFile h # map AppendFile rs) + 1 = length (WriteFile h # map AppendFile rs)"
    for h rs
    using appended_map_AppendFile [of rs] by (simp add: appended_def)
  have content: "file_content (WriteFile h # map AppendFile rs) c = h @ concat rs" for h rs
    by (simp add: file_content_appends)
  have one: "fs_calls r = WriteFile CSV_HEADERS # map AppendFile (script_rows transfer_log script) \<and>
      appended (fs_calls r) + 1 = length (fs_calls r) \<and>
      file_content (fs_calls r) c = CSV_HEADERS @ concat (script_rows transfer_log script)"
    if m: "main script = Some r"
  proof -
    let ?rs = "script_rows transfer_log script"
    have eq: "fs_calls r = WriteFile CSV_HEADERS # map AppendFile ?rs"
      using main_Some [OF m] by blast
    show ?thesis
      unfolding eq using shape [of CSV_HEADERS ?rs] content [of CSV_HEADERS ?rs] by blast
  qed
  have two: "fs_calls r' = WriteFile CSV_HEADERS_pool #
        map AppendFile (script_rows (pool_log ''mint'') mint @
          (if reaches_tip mint then script_rows (pool_log ''burn'') burn else [])) \<and>
      appended (fs_calls r') + 1 = length (fs_calls r') \<and>
      file_content (fs_calls r') c = CSV_HEADERS_pool @
        concat (script_rows (pool_log ''mint'') mint @
          (if reaches_tip mint then script_rows (pool_log ''burn'') burn else []))"
    if m: "main_pool mint burn = Some r'"
  proof -
    let ?rs = "script_rows (pool_log ''mint'') mint @
          (if reaches_tip mint then script_rows (pool_log ''burn'') burn else [])"
    have eq: "fs_calls r' = WriteFile CSV_HEADERS_pool # map AppendFile ?rs"
      using main_pool_Some [OF m] by blast
    show ?thesis
      unfolding eq using shape [of CSV_HEADERS_pool ?rs] content [of CSV_HEADERS_pool ?rs] by blast
  qed
  have zero: "fs (foldl (loop_body transfer_log) initial_state bs) =
      WriteFile CSV_HEADERS # map AppendFile (concat (map (response_rows transfer_log) bs))"
    by (simp add: foldl_loop_body_fs initial_state_def)
  from zero one two show ?thesis by blast
qed

text \<open>Both scripts against a service that answers with two batches and then \<open>null\<close>.\<close>

theorem header_written_once_witness:
  "main script_to_tip = Some \<lparr>exit_status = 0,
           fs_calls = [WriteFile CSV_HEADERS, AppendFile
             ''11203200,1700000000,0xabc,0xdfc7c877a950e49d2610114102175a06c2e3167a,0x1111111111111111111111111111111111111111,100\<newline>''],
           events = 2\<rparr> \<and>
   fs_calls \<lparr>exit_status = 0,
           fs_calls = [WriteFile CSV_HEADERS, AppendFile
             ''11203200,1700000000,0xabc,0xdfc7c877a950e49d2610114102175a06c2e3167a,0x1111111111111111111111111111111111111111,100\<newline>''],
           events = 2\<rparr> = WriteFile CSV_HEADERS # map AppendFile (script_rows transfer_log script_to_tip) \<and>
   appended (fs_calls \<lparr>exit_status = 0,
           fs_calls = [WriteFile CSV_HEADERS, AppendFile
             ''11203200,1700000000,0xabc,0xdfc7c877a950e49d2610114102175a06c2e3167a,0x1111111111111111111111111111111111111111,100\<newline>''],
           events = 2\<rparr>) + 1 = length (fs_calls \<lparr>exit_status = 0,
           fs_calls = [WriteFile CSV_HEADERS, AppendFile
             ''11203200,1700000000,0xabc,0xdfc7c877a950e49d2610114102175a06c2e3167a,0x1111111111111111111111111111111111111111,100\<newline>''],
           events = 2\<rparr>) \<and>
   main_pool script_to_tip script_to_tip = Some \<lparr>exit_status = 0,
           fs_calls = [WriteFile CSV_HEADERS_pool,
             AppendFile ''11203200,1700000000,0xabc,0xdfc7c877a950e49d2610114102175a06c2e3167a,0x1111111111111111111111111111111111111111,0,0,mint\<newline>'',
             AppendFile ''11203200,1700000000,0xabc,0xdfc7c877a950e49d2610114102175a06c2e3167a,0x1111111111111111111111111111111111111111,0,0,burn\<newline>''],
           events = 4\<rparr> \<and>
   appended (fs_calls \<lparr>exit_status = 0,
           fs_calls = [WriteFile CSV_HEADERS_pool,
             AppendFile ''11203200,1700000000,0xabc,0xdfc7c877a950e49d2610114102175a06c2e3167a,0x1111111111111111111111111111111111111111,0,0,mint\<newline>'',
             AppendFile ''11203200,1700000000,0xabc,0xdfc7c877a950e49d2610114102175a06c2e3167a,0x1111111111111111111111111111111111111111,0,0,burn\<newline>''],
           events = 4\<rparr>) + 1 = length (fs_calls \<lparr>exit_status = 0,
           fs_calls = [WriteFile CSV_HEADERS_pool,
             AppendFile ''11203200,1700000000,0xabc,0xdfc7c877a950e49d2610114102175a06c2e3167a,0x1111111111111111111111111111111111111111,0,0,mint\<newline>'',
             AppendFile ''11203200,1700000000,0xabc,0xdfc7c877a950e49d2610114102175a06c2e3167a,0x1111111111111111111111111111111111111111,0,0,burn\<newline>''],
           events = 4\<rparr>)"
proof -
  let ?r = "\<lparr>exit_status = 0,
           fs_calls = [WriteFile CSV_HEADERS, AppendFile
             ''11203200,1700000000,0xabc,0xdfc7c877a950e49d2610114102175a06c2e3167a,0x1111111111111111111111111111111111111111,100\<newline>''],
           events = 2\<rparr>"
  let ?p = "\<lparr>exit_status = 0,
           fs_calls = [WriteFile CSV_HEADERS_pool,
             AppendFile ''11203200,1700000000,0xabc,0xdfc7c877a950e49d2610114102175a06c2e3167a,0x1111111111111111111111111111111111111111,0,0,mint\<newline>'',
             AppendFile ''11203200,1700000000,0xabc,0xdfc7c877a950e49d2610114102175a06c2e3167a,0x1111111111111111111111111111111111111111,0,0,burn\<newline>''],
           events = 4\<rparr>"
  have h1: "main script_to_tip = Some ?r" by (rule main_script_to_tip)
  have h2: "main_pool script_to_tip script_to_tip = Some ?p" by (rule main_pool_script_to_tip)
  from header_written_once [where script = script_to_tip and r = ?r and mint = script_to_tip
      and burn = script_to_tip and r' = ?p] h1 h2
  have "fs_calls ?r = WriteFile CSV_HEADERS # map AppendFile (script_rows transfer_log script_to_tip) \<and>
        appended (fs_calls ?r) + 1 = length (fs_calls ?r) \<and>
        appended (fs_calls ?p) + 1 = length (fs_calls ?p)"
    by blast
  with h1 h2 show ?thesis by blast
qed

section \<open>The event counter\<close>

text \<open>
  C10. Each batch adds the number of its logs to \<open>totalEvents\<close>, whether or not their
  processing throws. So in every finished run the number of rows appended plus the number
  of logs that threw is the event count: the rows are at most the event count, and equal
  to it exactly when no log threw. For the pool script the event count is the sum of the
  counts of the two passes.
\<close>

theorem event_counter_bounds_rows:
  "totalEvents (loop_body row st res) = totalEvents st + length (response_logs res) \<and>
   (main script = Some r \<longrightarrow>
      appended (fs_calls r) + script_errors transfer_log script = events r \<and>
      appended (fs_calls r) \<le> events r \<and>
      (appended (fs_calls r) = events r \<longleftrightarrow> script_errors transfer_log script = 0)) \<and>
   (main_pool mint burn = Some r' \<longrightarrow>
      appended (fs_calls r') \<le> events r' \<and>
      (appended (fs_calls r') = events r' \<longleftrightarrow>
         script_errors (pool_log ''mint'') mint +
           (if reaches_tip mint then script_errors (pool_log ''burn'') burn else 0) = 0))"
proof -
  have count: "appended (WriteFile h # map AppendFile rs) = length rs" for h rs
    using appended_map_AppendFile [of rs] by (simp add: appended_def)
  have one: "appended (fs_calls r) + script_errors transfer_log script = events r"
    if "main script = Some r"
    using main_Some [OF that] script_rows_errors [of transfer_log script] by (simp add: count)
  have two: "appended (fs_calls r') + (script_errors (pool_log ''mint'') mint +
           (if reaches_tip mint then script_errors (pool_log ''burn'') burn else 0)) = events r'"
    if m: "main_pool mint burn = Some r'"
  proof -
    let ?rs = "script_rows (pool_log ''mint'') mint @
          (if reaches_tip mint then script_rows (pool_log ''burn'') burn else [])"
    have eq: "fs_calls r' = WriteFile CSV_HEADERS_pool # map AppendFile ?rs"
      and ev: "events r' = script_logs mint + (if reaches_tip mint then script_logs burn else 0)"
      using main_pool_Some [OF m] by blast+
    have "appended (fs_calls r') = length ?rs"
      unfolding eq by (rule count)
    then show ?thesis
      using ev script_rows_errors [of "pool_log ''mint''" mint]
        script_rows_errors [of "pool_log ''burn''" burn]
      by (simp split: if_splits)
  qed
  have three: "totalEvents (loop_body row st res) = totalEvents st + length (response_logs res)"
    by (rule loop_body_totalEvents)
  from one two three show ?thesis by auto
qed

text \<open>A run in which one of two logs throws: one row, two events.\<close>

theorem event_counter_bounds_rows_witness:
  "main script_to_tip = Some \<lparr>exit_status = 0,
           fs_calls = [WriteFile CSV_HEADERS, AppendFile
             ''11203200,1700000000,0xabc,0xdfc7c877a950e49d2610114102175a06c2e3167a,0x1111111111111111111111111111111111111111,100\<newline>''],
           events = 2\<rparr> \<and>
   appended (fs_calls \<lparr>exit_status = 0,
           fs_calls = [WriteFile CSV_HEADERS, AppendFile
             ''11203200,1700000000,0xabc,0xdfc7c877a950e49d2610114102175a06c2e3167a,0x1111111111111111111111111111111111111111,100\<newline>''],
           events = 2\<rparr>) + script_errors transfer_log script_to_tip = events \<lparr>exit_status = 0,
           fs_calls = [WriteFile CSV_HEADERS, AppendFile
             ''11203200,1700000000,0xabc,0xdfc7c877a950e49d2610114102175a06c2e3167a,0x1111111111111111111111111111111111111111,100\<newline>''],
           events = 2\<rparr> \<and>
   appended (fs_calls \<lparr>exit_status = 0,
           fs_calls = [WriteFile CSV_HEADERS, AppendFile
             ''11203200,1700000000,0xabc,0xdfc7c877a950e49d2610114102175a06c2e3167a,0x1111111111111111111111111111111111111111,100\<newline>''],
           events = 2\<rparr>) \<le> events \<lparr>exit_status = 0,
           fs_calls = [WriteFile CSV_HEADERS, AppendFile
             ''11203200,1700000000,0xabc,0xdfc7c877a950e49d2610114102175a06c2e3167a,0x1111111111111111111111111111111111111111,100\<newline>''],
           events = 2\<rparr> \<and>
   main_pool script_to_tip script_to_tip = Some \<lparr>exit_status = 0,
           fs_calls = [WriteFile CSV_HEADERS_pool,
             AppendFile ''11203200,1700000000,0xabc,0xdfc7c877a950e49d2610114102175a06c2e3167a,0x1111111111111111111111111111111111111111,0,0,mint\<newline>'',
             AppendFile ''11203200,1700000000,0xabc,0xdfc7c877a950e49d2610114102175a06c2e3167a,0x1111111111111111111111111111111111111111,0,0,burn\<newline>''],
           events = 4\<rparr> \<and>
   appended (fs_calls \<lparr>exit_status = 0,
           fs_calls = [WriteFile CSV_HEADERS_pool,
             AppendFile ''11203200,1700000000,0xabc,0xdfc7c877a950e49d2610114102175a06c2e3167a,0x1111111111111111111111111111111111111111,0,0,mint\<newline>'',
             AppendFile ''11203200,1700000000,0xabc,0xdfc7c877a950e49d2610114102175a06c2e3167a,0x1111111111111111111111111111111111111111,0,0,burn\<newline>''],
           events = 4\<rparr>) \<le> events \<lparr>exit_status = 0,
           fs_calls = [WriteFile CSV_HEADERS_pool,
             AppendFile ''11203200,1700000000,0xabc,0xdfc7c877a950e49d2610114102175a06c2e3167a,0x1111111111111111111111111111111111111111,0,0,mint\<newline>'',
             AppendFile ''11203200,1700000000,0xabc,0xdfc7c877a950e49d2610114102175a06c2e3167a,0x1111111111111111111111111111111111111111,0,0,burn\<newline>''],
           events = 4\<rparr>"
proof -
  let ?r = "\<lparr>exit_status = 0,
           fs_calls = [WriteFile CSV_HEADERS, AppendFile
             ''11203200,1700000000,0xabc,0xdfc7c877a950e49d2610114102175a06c2e3167a,0x1111111111111111111111111111111111111111,100\<newline>''],
           events = 2\<rparr>"
  let ?p = "\<lparr>exit_status = 0,
           fs_calls = [WriteFile CSV_HEADERS_pool,
             AppendFile ''11203200,1700000000,0xabc,0xdfc7c877a950e49d2610114102175a06c2e3167a,0x1111111111111111111111111111111111111111,0,0,mint\<newline>'',
             AppendFile ''11203200,1700000000,0xabc,0xdfc7c877a950e49d2610114102175a06c2e3167a,0x1111111111111111111111111111111111111111,0,0,burn\<newline>''],
           events = 4\<rparr>"
  have h1: "main script_to_tip = Some ?r" by (rule main_script_to_tip)
  have h2: "main_pool script_to_tip script_to_tip = Some ?p" by (rule main_pool_script_to_tip)
  from event_counter_bounds_rows [where script = script_to_tip and r = ?r and mint = script_to_tip
      and burn = script_to_tip and r' = ?p] h1 h2
  have "appended (fs_calls ?r) + script_errors transfer_log script_to_tip = events ?r \<and>
        appended (fs_calls ?r) \<le> events ?r \<and>
        appended (fs_calls ?p) \<le> events ?p"
    by blast
  with h1 h2 show ?thesis by blast
qed

section \<open>Address extraction\<close>

















section \<open>The timestamp join\<close>

lemma transfer_fields_join:
  "transfer_fields bs l = Inr r \<Longrightarrow>
     t_timestamp r = interpolate (timestamp_of (find_block bs (or_empty (blockNumber l)))) \<and>
     t_blockNumber r = interpolate (or_empty (blockNumber l))"
  by (auto simp: transfer_fields_def Let_def split: sum.splits)

lemma transfer_fields_isl_blocks: "isl (transfer_fields bs l) = isl (transfer_fields bs' l)"
  by (auto simp: transfer_fields_def Let_def split: sum.splits)

lemma interpolate_empty: "interpolate v = [] \<longleftrightarrow> v = Empty"
  by (cases v) (simp_all add: interpolate_def toString_nonempty)

lemma strict_eq_Num: "strict_eq x (Num n) \<longleftrightarrow> x = Some n"
  by (cases x) (simp_all add: strict_eq_def)

lemma strict_eq_Empty: "\<not> strict_eq x Empty"
  by (cases x) (simp_all add: strict_eq_def)

lemma or_empty_Num: "or_empty x = Num n \<longleftrightarrow> x = Some n \<and> n \<noteq> 0"
  by (cases x) (auto simp: or_empty_def)

lemma find_block_batch:
  "find_block bs v = find (\<lambda>b. strict_eq (number b) v) (batch_blocks bs)"
  by (simp add: find_block_def batch_blocks_def split: option.splits)

lemma find_block_Some:
  "find_block bs (or_empty x) = Some b \<Longrightarrow>
     b \<in> set (batch_blocks bs) \<and> number b = x \<and> x \<noteq> None"
proof -
  assume "find_block bs (or_empty x) = Some b"
  then have fb: "find (\<lambda>b. strict_eq (number b) (or_empty x)) (batch_blocks bs) = Some b"
    by (simp add: find_block_batch)
  then have m: "b \<in> set (batch_blocks bs)" and e: "strict_eq (number b) (or_empty x)"
    by (auto simp: find_Some_iff)
  from e obtain n where "or_empty x = Num n" "number b = Some n"
    by (cases "or_empty x") (simp_all add: strict_eq_Num strict_eq_Empty)
  with m show ?thesis by (auto simp: or_empty_Num)
qed

lemma find_block_nonzero:
  "n \<noteq> 0 \<Longrightarrow> find_block bs (or_empty (Some n)) = find (\<lambda>b. number b = Some n) (batch_blocks bs)"
  by (simp add: find_block_batch or_empty_def strict_eq_Num)

lemma find_block_no_match:
  "\<forall>b \<in> set (batch_blocks bs). number b \<noteq> x \<Longrightarrow> find_block bs (or_empty x) = None"
proof (rule ccontr)
  assume h: "\<forall>b \<in> set (batch_blocks bs). number b \<noteq> x"
    and "find_block bs (or_empty x) \<noteq> None"
  then obtain b where "find_block bs (or_empty x) = Some b" by auto
  from find_block_Some [OF this] h show False by auto
qed

lemma fields_stamped: "transfer_fields (Some [block_stamped]) log_named = Inr row_stamped"
  by (simp add: eval_log row_stamped_def row_example_def block_stamped_def)

lemma fields_unstamped: "transfer_fields (Some [block_unstamped]) log_named = Inr row_example"
  by (simp add: eval_log row_example_def block_unstamped_def)

lemma fields_no_blocks: "transfer_fields (Some []) log_named = Inr row_example"
  by (simp add: eval_log row_example_def)

text \<open>
  C8, in the form that holds of the code. In every row that the transfer script produces, the timestamp field is
  non-empty only if a block whose number equals the log's block number is present in the
  same batch. For a log with a (non-zero) block number it is the decimal timestamp of the
  first such block when that block carries a (non-zero) timestamp, and empty when that
  block carries none. When no such block is
  present the timestamp is empty. The blocks of the batch never decide whether the row is
  produced, and the row carries the log's (non-zero) block number in every case. Block
  numbers and timestamps are safe integers, which print as their decimal digits.
\<close>

theorem timestamp_join:
  "(transfer_fields bs l = Inr r \<and> t_timestamp r \<noteq> [] \<longrightarrow>
      (\<exists>b \<in> set (batch_blocks bs). number b = blockNumber l \<and> blockNumber l \<noteq> None)) \<and>
   (transfer_fields bs l = Inr r \<and> blockNumber l = Some n \<and> n \<noteq> 0 \<and>
    find (\<lambda>b. number b = Some n) (batch_blocks bs) = Some b \<and>
    timestamp b = Some t \<and> t \<noteq> 0 \<longrightarrow>
      t_timestamp r = toString (unat t) \<and> t_timestamp r \<noteq> []) \<and>
   (transfer_fields bs l = Inr r \<and> blockNumber l = Some n \<and> n \<noteq> 0 \<and>
    find (\<lambda>b. number b = Some n) (batch_blocks bs) = Some b \<and> timestamp b = None \<longrightarrow>
      t_timestamp r = []) \<and>
   (transfer_fields bs l = Inr r \<and> (\<forall>b \<in> set (batch_blocks bs). number b \<noteq> blockNumber l) \<longrightarrow>
      t_timestamp r = []) \<and>
   (transfer_fields bs l = Inr r \<and> blockNumber l = Some n \<and> n \<noteq> 0 \<longrightarrow>
      t_blockNumber r = toString (unat n)) \<and>
   isl (transfer_fields bs l) = isl (transfer_fields bs' l)"
proof -
  have one: "\<exists>b \<in> set (batch_blocks bs). number b = blockNumber l \<and> blockNumber l \<noteq> None"
    if r: "transfer_fields bs l = Inr r" and ne: "t_timestamp r \<noteq> []"
  proof -
    from transfer_fields_join [OF r] ne
    have "timestamp_of (find_block bs (or_empty (blockNumber l))) \<noteq> Empty"
      by (simp add: interpolate_empty)
    then obtain b where "find_block bs (or_empty (blockNumber l)) = Some b"
      by (auto simp: timestamp_of_def split: option.splits)
    from find_block_Some [OF this] show ?thesis by blast
  qed
  have two: "t_timestamp r = toString (unat t) \<and> t_timestamp r \<noteq> []"
    if "transfer_fields bs l = Inr r" "blockNumber l = Some n" "n \<noteq> 0"
      "find (\<lambda>b. number b = Some n) (batch_blocks bs) = Some b" "timestamp b = Some t" "t \<noteq> 0"
    using transfer_fields_join [OF that(1)] that(2-) find_block_nonzero [of n bs]
    by (simp add: timestamp_of_def or_empty_def interpolate_def toString_nonempty)
  have three: "t_timestamp r = []"
    if "transfer_fields bs l = Inr r" "blockNumber l = Some n" "n \<noteq> 0"
      "find (\<lambda>b. number b = Some n) (batch_blocks bs) = Some b" "timestamp b = None"
    using transfer_fields_join [OF that(1)] that(2-) find_block_nonzero [of n bs]
    by (simp add: timestamp_of_def or_empty_def interpolate_def)
  have four: "t_timestamp r = []"
    if "transfer_fields bs l = Inr r" "\<forall>b \<in> set (batch_blocks bs). number b \<noteq> blockNumber l"
    using transfer_fields_join [OF that(1)] find_block_no_match [OF that(2)]
    by (simp add: timestamp_of_def interpolate_def)
  have five: "t_blockNumber r = toString (unat n)"
    if "transfer_fields bs l = Inr r" "blockNumber l = Some n" "n \<noteq> 0"
    using transfer_fields_join [OF that(1)] that(2-)
    by (simp add: or_empty_def interpolate_def)
  have six: "isl (transfer_fields bs l) = isl (transfer_fields bs' l)"
    by (rule transfer_fields_isl_blocks)
  show ?thesis
    by (intro conjI impI; (elim conjE)?;
        (rule one two [THEN conjunct1] two [THEN conjunct2] three four five six; assumption)?)
qed

text \<open>The example log joined with a stamped block, an unstamped block, and no block.\<close>

theorem timestamp_join_witness:
  "(transfer_fields (Some [block_stamped]) log_named = Inr row_stamped \<and>
    t_timestamp row_stamped \<noteq> [] \<and>
    blockNumber log_named = Some 11203200 \<and> (11203200::safe_integer) \<noteq> 0 \<and>
    find (\<lambda>b. number b = Some 11203200) (batch_blocks (Some [block_stamped])) = Some block_stamped \<and>
    timestamp block_stamped = Some 1700000000 \<and> (1700000000::safe_integer) \<noteq> 0 \<and>
    t_timestamp row_stamped = toString (unat (1700000000::safe_integer)) \<and>
    t_blockNumber row_stamped = toString (unat (11203200::safe_integer)) \<and>
    (\<exists>b \<in> set (batch_blocks (Some [block_stamped])).
       number b = blockNumber log_named \<and> blockNumber log_named \<noteq> None)) \<and>
   (transfer_fields (Some [block_unstamped]) log_named = Inr row_example \<and>
    find (\<lambda>b. number b = Some 11203200) (batch_blocks (Some [block_unstamped])) = Some block_unstamped \<and>
    timestamp block_unstamped = None \<and> t_timestamp row_example = []) \<and>
   (transfer_fields (Some []) log_named = Inr row_example \<and>
    set (batch_blocks (Some [])) = {} \<and> t_timestamp row_example = [])"
proof -
  have s: "transfer_fields (Some [block_stamped]) log_named = Inr row_stamped"
    by (rule fields_stamped)
  have s1: "t_timestamp row_stamped \<noteq> []"
    by (simp add: row_stamped_def)
  have n: "blockNumber log_named = Some 11203200 \<and> (11203200::safe_integer) \<noteq> 0"
    by (simp add: log_named_def)
  have s2: "find (\<lambda>b. number b = Some 11203200) (batch_blocks (Some [block_stamped])) = Some block_stamped \<and>
            timestamp block_stamped = Some 1700000000 \<and> (1700000000::safe_integer) \<noteq> 0"
    by (simp add: block_stamped_def batch_blocks_def)
  have u: "transfer_fields (Some [block_unstamped]) log_named = Inr row_example"
    by (rule fields_unstamped)
  have u1: "find (\<lambda>b. number b = Some 11203200) (batch_blocks (Some [block_unstamped])) = Some block_unstamped \<and>
            timestamp block_unstamped = None"
    by (simp add: block_unstamped_def batch_blocks_def)
  have e: "transfer_fields (Some []) log_named = Inr row_example"
    by (rule fields_no_blocks)
  have e0: "set (batch_blocks (Some [])) = ({} :: block set)"
    by (simp add: batch_blocks_def)
  then have e1: "\<forall>b \<in> set (batch_blocks (Some [])). number b \<noteq> blockNumber log_named"
    by simp
  have c1: "\<exists>b \<in> set (batch_blocks (Some [block_stamped])).
       number b = blockNumber log_named \<and> blockNumber log_named \<noteq> None"
    using timestamp_join [of "Some [block_stamped]" log_named row_stamped] s s1 by blast
  have c2: "t_timestamp row_stamped = toString (unat (1700000000::safe_integer))"
    using timestamp_join [of "Some [block_stamped]" log_named row_stamped 11203200
        block_stamped 1700000000] s n s2 by blast
  have c3: "t_blockNumber row_stamped = toString (unat (11203200::safe_integer))"
    using timestamp_join [of "Some [block_stamped]" log_named row_stamped 11203200] s n by blast
  have c4: "t_timestamp row_example = []"
    using timestamp_join [of "Some [block_unstamped]" log_named row_example 11203200
        block_unstamped] u n u1 by blast
  have c5: "t_timestamp row_example = []"
    using timestamp_join [of "Some []" log_named row_example] e e1 by blast
  show ?thesis
    using s s1 n s2 u u1 e e0 c1 c2 c3 c4 c5 by (intro conjI; blast)
qed

text \<open>
  C8 as the specification states it fails: a block with the log's number is present in the batch, but carries
  no timestamp, and the row's timestamp is empty.
\<close>

theorem timestamp_join_counterexample:
  "block_unstamped \<in> set (batch_blocks (Some [block_unstamped])) \<and>
   number block_unstamped = blockNumber log_named \<and>
   transfer_fields (Some [block_unstamped]) log_named = Inr row_example \<and>
   t_timestamp row_example = []"
  by (simp add: fields_unstamped)
    (simp add: row_example_def block_unstamped_def log_named_def batch_blocks_def)

end
